theory Spec2Isabelle
  imports Main "HOL-Library.Word"
begin

section \<open>Data model\<close>

text \<open>
  A shallow embedding of the dmsg stream layer (\<^verbatim>\<open>stream.go\<close>) and of the session
  layer (\<^verbatim>\<open>Session\<close>: \<^verbatim>\<open>InitiateSession\<close>, \<^verbatim>\<open>RespondSession\<close>,
  \<^verbatim>\<open>handleServerStream\<close>, \<^verbatim>\<open>forwardRequest\<close>, \<^verbatim>\<open>Close\<close>).
  Go's \<^verbatim>\<open>[]byte\<close> is a list of 8-bit characters, a \<^verbatim>\<open>uint16\<close> port is a
  \<open>16 word\<close>, the \<^verbatim>\<open>int64\<close> timestamp is an \<open>int\<close> (the code never does
  arithmetic on it). Pointers to mutable objects (\<^verbatim>\<open>*yamux.Stream\<close>,
  \<^verbatim>\<open>*Listener\<close>, \<^verbatim>\<open>*Session\<close>) are addresses into explicit stores, and every
  function returns the stores it has updated. The logger fields are left out.
\<close>

type_synonym bytes = "char list"
type_synonym PubKey = bytes
type_synonym SecKey = bytes
type_synonym port = "16 word"

record Addr =
  PK :: PubKey
  Port :: port

record StreamDialRequest =
  Timestamp :: int
  SrcAddr :: Addr
  DstAddr :: Addr
  NoiseMsg :: bytes
  Sig :: bytes

record StreamDialResponse =
  ReqHash :: bytes
  Accepted :: bool
  RespNoiseMsg :: bytes
  RespSig :: bytes

text \<open>The session layer calls the response record \<^verbatim>\<open>DialResponse\<close>.\<close>

type_synonym DialResponse = StreamDialResponse

text \<open>
  Every error value the modelled code returns. \<open>ErrHandshakeResidue\<close> is the
  \<^verbatim>\<open>errors.New("bufio reader should be empty after session handshake")\<close> of the
  session bring-up; \<open>Panic\<close> is a Go panic; \<open>ErrOther\<close> carries an error of a
  collaborator (noise, yamux, signature check) that the code only passes on.
\<close>

datatype error =
    ErrReqInvalidTimestamp
  | ErrReqInvalidSrcPK
  | ErrReqInvalidDstPK
  | ErrReqNoListener
  | ErrReqNoSession
  | ErrHandshakeResidue
  | ErrRequestHashMismatch
  | ErrInvalidSignature
  | ErrRejected
  | ErrNoFreePort
  | ErrListenerClosed
  | ErrListenerBusy
  | ErrSessionShutdown
  | ErrStreamClosed
  | ErrEOF
  | ErrDecodeFailed
  | Panic string
  | ErrOther string

subsection \<open>The multiplexer\<close>

text \<open>
  The multiplexer (yamux) is an external library; the model keeps its contract: a session
  holds sub-streams, each a reliable ordered channel. A sub-stream is the queue \<open>rx\<close> of
  what the peer has sent and is still unread, the queue \<open>tx\<close> of what has been written,
  and a closed flag. What travels is a framed record of the session codec or raw bytes.
\<close>

datatype frame =
    FReq StreamDialRequest
  | FResp StreamDialResponse
  | FRaw bytes

record YStream =
  rx :: "frame list"
  tx :: "frame list"
  closed :: bool

record YSession =
  streams :: "nat \<rightharpoonup> YStream"
  nextID :: nat
  goAway :: bool
  shutdown :: bool

text \<open>
  \<^verbatim>\<open>OpenStream\<close>: a new sub-stream, unless the session is shut down. The parameter
  \<open>peer\<close> is what the remote side is going to send on it.
\<close>

definition OpenStream :: "YSession \<Rightarrow> frame list \<Rightarrow> error + (nat \<times> YSession)" where
  "OpenStream y peer =
     (if shutdown y then Inl ErrSessionShutdown
      else Inr (nextID y,
                y\<lparr>streams := (streams y)(nextID y \<mapsto> \<lparr>rx = peer, tx = [], closed = False\<rparr>),
                  nextID := Suc (nextID y)\<rparr>))"

text \<open>
  \<^verbatim>\<open>AcceptStream\<close>: the next inbound sub-stream; \<open>inbound = None\<close> stands for the
  session ending before one arrives.
\<close>

definition AcceptStream :: "YSession \<Rightarrow> frame list option \<Rightarrow> error + (nat \<times> YSession)" where
  "AcceptStream y inbound =
     (if shutdown y then Inl ErrSessionShutdown
      else case inbound of
             None \<Rightarrow> Inl ErrSessionShutdown
           | Some peer \<Rightarrow>
               Inr (nextID y,
                    y\<lparr>streams := (streams y)(nextID y \<mapsto> \<lparr>rx = peer, tx = [], closed = False\<rparr>),
                      nextID := Suc (nextID y)\<rparr>))"

definition ystr_Write :: "YSession \<Rightarrow> nat \<Rightarrow> frame \<Rightarrow> error + YSession" where
  "ystr_Write y sid f =
     (case streams y sid of
        None \<Rightarrow> Inl ErrStreamClosed
      | Some st \<Rightarrow>
          if shutdown y then Inl ErrSessionShutdown
          else if closed st then Inl ErrStreamClosed
          else Inr (y\<lparr>streams := (streams y)(sid \<mapsto> st\<lparr>tx := tx st @ [f]\<rparr>)\<rparr>))"

definition ystr_Read :: "YSession \<Rightarrow> nat \<Rightarrow> error + (frame \<times> YSession)" where
  "ystr_Read y sid =
     (case streams y sid of
        None \<Rightarrow> Inl ErrStreamClosed
      | Some st \<Rightarrow>
          if closed st then Inl ErrStreamClosed
          else (case rx st of
                  [] \<Rightarrow> Inl ErrEOF
                | f # fs \<Rightarrow> Inr (f, y\<lparr>streams := (streams y)(sid \<mapsto> st\<lparr>rx := fs\<rparr>)\<rparr>)))"

text \<open>Closing a sub-stream marks it closed; closing it again changes nothing.\<close>

definition ystr_Close :: "YSession \<Rightarrow> nat \<Rightarrow> error option \<times> YSession" where
  "ystr_Close y sid =
     (case streams y sid of
        None \<Rightarrow> (None, y)
      | Some st \<Rightarrow>
          (if shutdown y \<and> \<not> closed st then Some ErrSessionShutdown else None,
           y\<lparr>streams := (streams y)(sid \<mapsto> st\<lparr>closed := True\<rparr>)\<rparr>))"

definition GoAway :: "YSession \<Rightarrow> error option \<times> YSession" where
  "GoAway y = (if shutdown y then Some ErrSessionShutdown else None, y\<lparr>goAway := True\<rparr>)"

text \<open>Closing the multiplexer session shuts it down and closes every sub-stream.\<close>

definition yses_Close :: "YSession \<Rightarrow> error option \<times> YSession" where
  "yses_Close y =
     (None,
      y\<lparr>shutdown := True,
        streams := (\<lambda>sid. map_option (\<lambda>st. st\<lparr>closed := True\<rparr>) (streams y sid))\<rparr>)"

subsection \<open>The session codec\<close>

text \<open>
  Modelled from the spec: \<^verbatim>\<open>writeEncryptedGob\<close> and \<^verbatim>\<open>readEncryptedGob\<close> are not
  among the source files. Section 4.2 has \<open>write(record)\<close> put one framed, encrypted
  record on the sub-stream and \<open>read\<close> take one off and decode it, failing with
  \<open>DecodeFailed\<close> when it is not the record expected.
\<close>

definition writeEncryptedGob :: "YSession \<Rightarrow> nat \<Rightarrow> frame \<Rightarrow> error + YSession" where
  "writeEncryptedGob y sid f = ystr_Write y sid f"

definition readEncryptedGob_req :: "YSession \<Rightarrow> nat \<Rightarrow> error + (StreamDialRequest \<times> YSession)" where
  "readEncryptedGob_req y sid =
     (case ystr_Read y sid of
        Inl e \<Rightarrow> Inl e
      | Inr (FReq r, y') \<Rightarrow> Inr (r, y')
      | Inr (_, y') \<Rightarrow> Inl ErrDecodeFailed)"

definition readEncryptedGob_resp :: "YSession \<Rightarrow> nat \<Rightarrow> error + (StreamDialResponse \<times> YSession)" where
  "readEncryptedGob_resp y sid =
     (case ystr_Read y sid of
        Inl e \<Rightarrow> Inl e
      | Inr (FResp r, y') \<Rightarrow> Inr (r, y')
      | Inr (_, y') \<Rightarrow> Inl ErrDecodeFailed)"

subsection \<open>The porter\<close>

text \<open>
  A port holds a \<^verbatim>\<open>*Listener\<close> or a \<^verbatim>\<open>*Stream\<close> (Go's \<^verbatim>\<open>interface{}\<close>); the
  listener is an address into the listener store, the stream is named by its sub-stream.
\<close>

datatype PortValue = PVListener nat | PVStream nat

type_synonym Porter = "port \<rightharpoonup> PortValue"

text \<open>
  The release closure returned by a reservation: the port it frees and its once-flag.
\<close>

record Freer =
  fPort :: port
  fDone :: bool

text \<open>
  Modelled from the spec: the porter (\<^verbatim>\<open>netutil.Porter\<close>) is not among the source
  files. Section 4.1: \<open>ReserveEphemeral\<close> picks an unused port in the ephemeral range
  \<open>[49152, 65535]\<close>, starting from a random offset and probing sequentially, fails with
  \<open>NoFreePort\<close> after a full sweep, inserts the entity, and returns a release handle that
  removes the mapping exactly once (idempotent on repeated calls); \<open>Lookup\<close> returns the
  entity if present. \<open>seed\<close> is the random offset.
\<close>

definition ephPort :: "nat \<Rightarrow> port" where
  "ephPort off = of_nat (49152 + off mod 16384)"

fun probe :: "Porter \<Rightarrow> nat \<Rightarrow> nat \<Rightarrow> port option" where
  "probe P off 0 = None"
| "probe P off (Suc k) =
     (if P (ephPort off) = None then Some (ephPort off) else probe P (Suc off) k)"

definition ReserveEphemeral :: "Porter \<Rightarrow> nat \<Rightarrow> PortValue \<Rightarrow> error + (port \<times> Freer \<times> Porter)" where
  "ReserveEphemeral P seed v =
     (case probe P seed 16384 of
        None \<Rightarrow> Inl ErrNoFreePort
      | Some p \<Rightarrow> Inr (p, \<lparr>fPort = p, fDone = False\<rparr>, P(p \<mapsto> v)))"

definition PortValue :: "Porter \<Rightarrow> port \<Rightarrow> PortValue option" where
  "PortValue P p = P p"

definition call_freer :: "Freer \<Rightarrow> Porter \<Rightarrow> Freer \<times> Porter" where
  "call_freer f P =
     (if fDone f then (f, P) else (f\<lparr>fDone := True\<rparr>, P(fPort f := None)))"

text \<open>
  Modelled from the spec: the listener (\<^verbatim>\<open>Listener\<close>, \<^verbatim>\<open>introduceStream\<close>) is not
  among the source files. Section 4.4, step 8 and section 5: the stream is delivered to the
  listener's inbox, a bounded queue of capacity 64; a closed or full inbox refuses it.
\<close>

record Listener =
  inbox :: "nat list"
  lisClosed :: bool

definition introduceStream :: "Listener \<Rightarrow> nat \<Rightarrow> error + Listener" where
  "introduceStream l sid =
     (if lisClosed l then Inl ErrListenerClosed
      else if 64 \<le> length (inbox l) then Inl ErrListenerBusy
      else Inr (l\<lparr>inbox := inbox l @ [sid]\<rparr>))"

subsection \<open>Collaborators\<close>

datatype HandshakePattern = HandshakeXK | HandshakeKK

record Config =
  LocalPK :: PubKey
  LocalSK :: SecKey
  RemotePK :: PubKey
  Initiator :: bool

text \<open>
  The state of a noise handshake: its pattern, its configuration and the number of
  handshake messages it has made or processed.
\<close>

record Noise =
  nsPattern :: HandshakePattern
  nsConfig :: Config
  nsMsgs :: nat

text \<open>
  The raw connection: the bytes still to be read from it, the bytes written to it, and the
  multiplexer started on it, if any. \<open>Reader\<close> is the \<^verbatim>\<open>bufio.Reader\<close> put on the
  connection during the handshake: the bytes it has taken from the connection and not yet
  handed out. The handshake works on the bytes only.
\<close>

datatype MuxRole = MuxClient | MuxServer

record Wire =
  wireIn :: bytes
  wireOut :: bytes

record Conn =
  wire :: Wire
  mux :: "MuxRole option"

record Reader =
  buffered :: bytes

text \<open>
  The cryptographic primitives, the noise handshake and the record methods
  \<^verbatim>\<open>Hash\<close> and \<^verbatim>\<open>Verify\<close> of \<^verbatim>\<open>StreamDialRequest\<close> are not among the source
  files; the code below takes them as parameters, so that every theorem holds whatever they
  compute. \<open>yamux_VerifyConfig\<close> is the outcome of the multiplexer's check of its
  configuration, the only way \<^verbatim>\<open>yamux.Client\<close> and \<^verbatim>\<open>yamux.Server\<close> fail.
\<close>

record env =
  noise_New :: "HandshakePattern \<Rightarrow> Config \<Rightarrow> error + Noise"
  MakeHandshakeMessage :: "Noise \<Rightarrow> error + (bytes \<times> Noise)"
  ProcessHandshakeMessage :: "Noise \<Rightarrow> bytes \<Rightarrow> error + Noise"
  InitiatorHandshake :: "Noise \<Rightarrow> Reader \<Rightarrow> Wire \<Rightarrow> error + (Noise \<times> Reader \<times> Wire)"
  ResponderHandshake :: "Noise \<Rightarrow> Reader \<Rightarrow> Wire \<Rightarrow> error + (Noise \<times> Reader \<times> Wire)"
  RemoteStatic :: "Noise \<Rightarrow> PubKey"
  Hash :: "StreamDialRequest \<Rightarrow> bytes"
  RespHash :: "StreamDialResponse \<Rightarrow> bytes"
  SignPayload :: "bytes \<Rightarrow> SecKey \<Rightarrow> bytes"
  VerifySignedPayload :: "PubKey \<Rightarrow> bytes \<Rightarrow> bytes \<Rightarrow> bool"
  ReqVerify :: "StreamDialRequest \<Rightarrow> int \<Rightarrow> error option"
  yamux_VerifyConfig :: "error option"

text \<open>
  Modelled from the spec: \<^verbatim>\<open>Sign\<close> of the two records is not among the source files.
  Section 3: the signature signs the prior fields (their hash) with the secret key.
\<close>

definition Sign_req :: "env \<Rightarrow> StreamDialRequest \<Rightarrow> SecKey \<Rightarrow> StreamDialRequest" where
  "Sign_req E req sk = req\<lparr>Sig := SignPayload E (Hash E req) sk\<rparr>"

definition Sign_resp :: "env \<Rightarrow> StreamDialResponse \<Rightarrow> SecKey \<Rightarrow> StreamDialResponse" where
  "Sign_resp E resp sk = resp\<lparr>RespSig := SignPayload E (RespHash E resp) sk\<rparr>"

text \<open>
  Modelled from the spec: \<^verbatim>\<open>Verify\<close> of the response record is not among the source
  files. Section 4.4, step 5: the request hash equals the request's \<^verbatim>\<open>Hash()\<close>, the
  signature is valid under the destination's public key, and \<open>Accepted\<close> is true, otherwise
  \<open>Rejected\<close>; section 8, property 5: a hash that does not match fails with
  \<open>RequestHashMismatch\<close>. The checks run in the order the spec lists them.
\<close>

definition Verify_resp :: "env \<Rightarrow> StreamDialResponse \<Rightarrow> PubKey \<Rightarrow> bytes \<Rightarrow> error option" where
  "Verify_resp E resp reqDstPK reqHash =
     (if ReqHash resp \<noteq> reqHash then Some ErrRequestHashMismatch
      else if \<not> VerifySignedPayload E reqDstPK (RespSig resp) (RespHash E resp)
        then Some ErrInvalidSignature
      else if \<not> Accepted resp then Some ErrRejected
      else None)"

section \<open>Sessions and streams\<close>

text \<open>
  \<^verbatim>\<open>Session\<close>: the keys, the multiplexer session \<open>ys\<close>, the session noise \<open>sesNs\<close>
  (field \<^verbatim>\<open>ns\<close>) and the porter. \<open>lisStore\<close> is the store of the listeners that
  the porter's entries point to. \<^verbatim>\<open>stream.go\<close> names the client's session type
  \<^verbatim>\<open>ClientSession\<close>.
\<close>

record Session =
  lPK :: PubKey
  lSK :: SecKey
  rPK :: PubKey
  ys :: YSession
  sesNs :: Noise
  porter :: Porter
  lisStore :: "nat \<rightharpoonup> Listener"

type_synonym ClientSession = Session

definition Session_LocalPK :: "Session \<Rightarrow> PubKey" where
  "Session_LocalPK s = lPK s"

definition Session_RemotePK :: "Session \<Rightarrow> PubKey" where
  "Session_RemotePK s = rPK s"

definition localSK :: "Session \<Rightarrow> SecKey" where
  "localSK s = lSK s"

text \<open>
  \<^verbatim>\<open>Stream\<close>: \<open>yStr\<close> is the address of the sub-stream in the session's multiplexer;
  \<open>ns\<close>, \<open>nsConn\<close> and \<open>close\<close> are nil (\<open>None\<close>) until the handshake fills them.
  \<open>nsConn\<close>, the \<^verbatim>\<open>noise.ReadWriter\<close> over \<open>yStr\<close>, is kept as the address it wraps.
\<close>

record Stream =
  yStr :: nat
  lAddr :: Addr
  rAddr :: Addr
  ns :: "Noise option"
  nsConn :: "nat option"
  close :: "Freer option"

text \<open>The zero value of a key is written as the empty list, the zero port is \<open>0\<close>.\<close>

definition zeroAddr :: Addr where
  "zeroAddr = \<lparr>PK = [], Port = 0\<rparr>"

definition newStream :: "nat \<Rightarrow> Stream" where
  "newStream sid = \<lparr>yStr = sid, lAddr = zeroAddr, rAddr = zeroAddr, ns = None, nsConn = None, close = None\<rparr>"

definition newInitiatingStream :: "ClientSession \<Rightarrow> frame list \<Rightarrow> error + (Stream \<times> ClientSession)" where
  "newInitiatingStream cSes peer =
     (case OpenStream (ys cSes) peer of
        Inl e \<Rightarrow> Inl e
      | Inr (sid, y) \<Rightarrow> Inr (newStream sid, cSes\<lparr>ys := y\<rparr>))"

definition newRespondingStream :: "ClientSession \<Rightarrow> frame list option \<Rightarrow> error + (Stream \<times> ClientSession)" where
  "newRespondingStream cSes inbound =
     (case AcceptStream (ys cSes) inbound of
        Inl e \<Rightarrow> Inl e
      | Inr (sid, y) \<Rightarrow> Inr (newStream sid, cSes\<lparr>ys := y\<rparr>))"

text \<open>
  \<^verbatim>\<open>Stream.Close\<close>: a nil stream is left alone; otherwise the release closure is called
  when there is one, and the sub-stream is closed.
\<close>

fun Stream_Close :: "ClientSession \<Rightarrow> Stream option \<Rightarrow> error option \<times> ClientSession \<times> Stream option" where
  "Stream_Close cs None = (None, cs, None)"
| "Stream_Close cs (Some s) =
     (let (cl, P) = (case close s of
                       None \<Rightarrow> (None, porter cs)
                     | Some f \<Rightarrow> (case call_freer f (porter cs) of (f', P') \<Rightarrow> (Some f', P')));
          (err, y) = ystr_Close (ys cs) (yStr s)
      in (err, cs\<lparr>ys := y, porter := P\<rparr>, Some (s\<lparr>close := cl\<rparr>)))"

text \<open>
  \<^verbatim>\<open>prepareFields\<close>: a failure of \<^verbatim>\<open>noise.New\<close> panics; otherwise the addresses, the
  noise state and the noise reader-writer are set.
\<close>

definition prepareFields :: "env \<Rightarrow> ClientSession \<Rightarrow> Stream \<Rightarrow> bool \<Rightarrow> Addr \<Rightarrow> Addr \<Rightarrow> error + Stream" where
  "prepareFields E cs s init lA rA =
     (case noise_New E HandshakeKK
             \<lparr>LocalPK = Session_LocalPK cs, LocalSK = localSK cs, RemotePK = PK rA, Initiator = init\<rparr> of
        Inl e \<Rightarrow> Inl (Panic ''Failed to prepare stream noise object.'')
      | Inr n \<Rightarrow> Inr (s\<lparr>lAddr := lA, rAddr := rA, ns := Some n, nsConn := Some (yStr s)\<rparr>))"

definition LocalAddr :: "Stream \<Rightarrow> Addr" where
  "LocalAddr s = lAddr s"

definition RemoteAddr :: "Stream \<Rightarrow> Addr" where
  "RemoteAddr s = rAddr s"

text \<open>
  \<^verbatim>\<open>writeRequest\<close>: reserve an ephemeral port (the closure goes to \<open>close\<close>), prepare the
  fields, make the first handshake message, sign and write the request. \<open>now\<close> is
  \<^verbatim>\<open>time.Now().UnixNano()\<close>. The session and the stream are returned as the call leaves
  them, also when it fails.
\<close>

definition writeRequest ::
  "env \<Rightarrow> int \<Rightarrow> nat \<Rightarrow> ClientSession \<Rightarrow> Stream \<Rightarrow> Addr
     \<Rightarrow> (error + StreamDialRequest) \<times> ClientSession \<times> Stream" where
  "writeRequest E now seed cs s rA =
     (case ReserveEphemeral (porter cs) seed (PVStream (yStr s)) of
        Inl e \<Rightarrow> (Inl e, cs, s\<lparr>close := None\<rparr>)
      | Inr (lPort, fr, P) \<Rightarrow>
          let cs1 = cs\<lparr>porter := P\<rparr>; s1 = s\<lparr>close := Some fr\<rparr> in
          (case prepareFields E cs1 s1 True \<lparr>PK = Session_LocalPK cs1, Port = lPort\<rparr> rA of
             Inl e \<Rightarrow> (Inl e, cs1, s1)
           | Inr s2 \<Rightarrow>
               (case ns s2 of
                  None \<Rightarrow> (Inl (Panic ''nil noise''), cs1, s2)
                | Some n \<Rightarrow>
                    (case MakeHandshakeMessage E n of
                       Inl e \<Rightarrow> (Inl e, cs1, s2)
                     | Inr (nsMsg, n') \<Rightarrow>
                         let s3 = s2\<lparr>ns := Some n'\<rparr>;
                             req = Sign_req E
                                     \<lparr>Timestamp = now, SrcAddr = lAddr s3, DstAddr = rAddr s3,
                                      NoiseMsg = nsMsg, Sig = []\<rparr>
                                     (localSK cs1)
                         in (case writeEncryptedGob (ys cs1) (yStr s3) (FReq req) of
                               Inl e \<Rightarrow> (Inl e, cs1, s3)
                             | Inr y \<Rightarrow> (Inr req, cs1\<lparr>ys := y\<rparr>, s3))))))"

text \<open>
  \<^verbatim>\<open>readRequest\<close>: read the request, verify it (any failure is reported as an invalid
  timestamp), check the destination key, prepare the fields from the request's addresses,
  and process the handshake message.
\<close>

definition readRequest ::
  "env \<Rightarrow> ClientSession \<Rightarrow> Stream \<Rightarrow> (error + StreamDialRequest) \<times> ClientSession \<times> Stream" where
  "readRequest E cs s =
     (case readEncryptedGob_req (ys cs) (yStr s) of
        Inl e \<Rightarrow> (Inl e, cs, s)
      | Inr (req, y) \<Rightarrow>
          let cs1 = cs\<lparr>ys := y\<rparr> in
          (case ReqVerify E req 0 of
             Some e \<Rightarrow> (Inl ErrReqInvalidTimestamp, cs1, s)
           | None \<Rightarrow>
               if PK (DstAddr req) \<noteq> Session_LocalPK cs1 then (Inl ErrReqInvalidDstPK, cs1, s)
               else (case prepareFields E cs1 s False (DstAddr req) (SrcAddr req) of
                       Inl e \<Rightarrow> (Inl e, cs1, s)
                     | Inr s2 \<Rightarrow>
                         (case ns s2 of
                            None \<Rightarrow> (Inl (Panic ''nil noise''), cs1, s2)
                          | Some n \<Rightarrow>
                              (case ProcessHandshakeMessage E n (NoiseMsg req) of
                                 Inl e \<Rightarrow> (Inl e, cs1, s2)
                               | Inr n' \<Rightarrow> (Inr req, cs1, s2\<lparr>ns := Some n'\<rparr>))))))"

text \<open>
  \<^verbatim>\<open>writeResponse\<close>: the local port must hold a listener; the response is made with
  \<open>Accepted = True\<close>, signed and written, and the stream is pushed to the listener.
\<close>

definition writeResponse ::
  "env \<Rightarrow> ClientSession \<Rightarrow> Stream \<Rightarrow> StreamDialRequest \<Rightarrow> error option \<times> ClientSession \<times> Stream" where
  "writeResponse E cs s req =
     (case PortValue (porter cs) (Port (lAddr s)) of
        None \<Rightarrow> (Some ErrReqNoListener, cs, s)
      | Some (PVStream _) \<Rightarrow> (Some ErrReqNoListener, cs, s)
      | Some (PVListener la) \<Rightarrow>
          (case ns s of
             None \<Rightarrow> (Some (Panic ''nil noise''), cs, s)
           | Some n \<Rightarrow>
               (case MakeHandshakeMessage E n of
                  Inl e \<Rightarrow> (Some e, cs, s)
                | Inr (nsMsg, n') \<Rightarrow>
                    let s1 = s\<lparr>ns := Some n'\<rparr>;
                        resp = Sign_resp E
                                 \<lparr>ReqHash = Hash E req, Accepted = True, RespNoiseMsg = nsMsg, RespSig = []\<rparr>
                                 (localSK cs)
                    in (case writeEncryptedGob (ys cs) (yStr s1) (FResp resp) of
                          Inl e \<Rightarrow> (Some e, cs, s1)
                        | Inr y \<Rightarrow>
                            let cs1 = cs\<lparr>ys := y\<rparr> in
                            (case lisStore cs1 la of
                               None \<Rightarrow> (Some (Panic ''nil listener''), cs1, s1)
                             | Some l \<Rightarrow>
                                 (case introduceStream l (yStr s1) of
                                    Inl e \<Rightarrow> (Some e, cs1, s1)
                                  | Inr l' \<Rightarrow>
                                      (None, cs1\<lparr>lisStore := (lisStore cs1)(la \<mapsto> l')\<rparr>, s1)))))))"

text \<open>
  \<^verbatim>\<open>readResponse\<close>: read the response, verify it against the request's destination key
  and hash, and process its handshake message.
\<close>

definition readResponse ::
  "env \<Rightarrow> ClientSession \<Rightarrow> Stream \<Rightarrow> StreamDialRequest \<Rightarrow> error option \<times> ClientSession \<times> Stream" where
  "readResponse E cs s req =
     (case readEncryptedGob_resp (ys cs) (yStr s) of
        Inl e \<Rightarrow> (Some e, cs, s)
      | Inr (resp, y) \<Rightarrow>
          let cs1 = cs\<lparr>ys := y\<rparr> in
          (case Verify_resp E resp (PK (DstAddr req)) (Hash E req) of
             Some e \<Rightarrow> (Some e, cs1, s)
           | None \<Rightarrow>
               (case ns s of
                  None \<Rightarrow> (Some (Panic ''nil noise''), cs1, s)
                | Some n \<Rightarrow>
                    (case ProcessHandshakeMessage E n (RespNoiseMsg resp) of
                       Inl e \<Rightarrow> (Some e, cs1, s)
                     | Inr n' \<Rightarrow> (None, cs1, s\<lparr>ns := Some n'\<rparr>)))))"

text \<open>
  \<^verbatim>\<open>Read\<close> and \<^verbatim>\<open>Write\<close> go to the sub-stream itself (\<open>s.yStr\<close>), not through
  \<open>nsConn\<close>: the bytes given to \<^verbatim>\<open>Write\<close> are written as they are.
\<close>

definition Stream_Write :: "ClientSession \<Rightarrow> Stream \<Rightarrow> bytes \<Rightarrow> (nat \<times> error option) \<times> ClientSession" where
  "Stream_Write cs s b =
     (case ystr_Write (ys cs) (yStr s) (FRaw b) of
        Inl e \<Rightarrow> ((0, Some e), cs)
      | Inr y \<Rightarrow> ((length b, None), cs\<lparr>ys := y\<rparr>))"

definition Stream_Read :: "ClientSession \<Rightarrow> Stream \<Rightarrow> (bytes \<times> error option) \<times> ClientSession" where
  "Stream_Read cs s =
     (case ystr_Read (ys cs) (yStr s) of
        Inl e \<Rightarrow> (([], Some e), cs)
      | Inr (FRaw b, y) \<Rightarrow> ((b, None), cs\<lparr>ys := y\<rparr>)
      | Inr (_, y) \<Rightarrow> (([], Some ErrDecodeFailed), cs\<lparr>ys := y\<rparr>))"

text \<open>
  Modelled from the spec: the dial of the client session that runs \<^verbatim>\<open>writeRequest\<close>
  and \<^verbatim>\<open>readResponse\<close> is not among the source files (\<^verbatim>\<open>DialClientStream\<close>
  hands the handshake to \<^verbatim>\<open>DoClientHandshake\<close>, which is absent too). Section 4.4,
  \<open>DialStream\<close>: open a sub-stream, reserve a port, send the request, read and verify the
  response, process its handshake payload, return the stream; errors propagate, and on a
  failure the reservation is released and the sub-stream is closed. The third component is
  the stream object as the call leaves it; the caller gets it only when the error is nil.
\<close>

definition DialStream ::
  "env \<Rightarrow> int \<Rightarrow> nat \<Rightarrow> ClientSession \<Rightarrow> Addr \<Rightarrow> frame list
     \<Rightarrow> error option \<times> ClientSession \<times> Stream option" where
  "DialStream E now seed cs dst peer =
     (case newInitiatingStream cs peer of
        Inl e \<Rightarrow> (Some e, cs, None)
      | Inr (s, cs0) \<Rightarrow>
          (case writeRequest E now seed cs0 s dst of
             (Inl e, cs1, s1) \<Rightarrow>
               (case Stream_Close cs1 (Some s1) of (_, cs2, s2) \<Rightarrow> (Some e, cs2, s2))
           | (Inr req, cs1, s1) \<Rightarrow>
               (case readResponse E cs1 s1 req of
                  (Some e, cs2, s2) \<Rightarrow>
                    (case Stream_Close cs2 (Some s2) of (_, cs3, s3) \<Rightarrow> (Some e, cs3, s3))
                | (None, cs2, s2) \<Rightarrow> (None, cs2, Some s2))))"

definition dialed :: "error option \<times> ClientSession \<times> Stream option \<Rightarrow> Stream option" where
  "dialed r = (case r of (None, _, s) \<Rightarrow> s | (Some e, _, _) \<Rightarrow> None)"

section \<open>The session layer\<close>

text \<open>
  \<^verbatim>\<open>yamux.Client\<close> and \<^verbatim>\<open>yamux.Server\<close> start the multiplexer on the connection,
  unless the configuration is refused.
\<close>

definition yamux_start :: "env \<Rightarrow> MuxRole \<Rightarrow> Conn \<Rightarrow> error + (YSession \<times> Conn)" where
  "yamux_start E role conn =
     (case yamux_VerifyConfig E of
        Some e \<Rightarrow> Inl e
      | None \<Rightarrow>
          Inr (\<lparr>streams = Map.empty, nextID = 1, goAway = False, shutdown = False\<rparr>,
               conn\<lparr>mux := Some role\<rparr>))"

definition Buffered :: "Reader \<Rightarrow> nat" where
  "Buffered r = length (buffered r)"

definition NewReader :: Reader where
  "NewReader = \<lparr>buffered = []\<rparr>"

text \<open>
  \<^verbatim>\<open>InitiateSession\<close>: the noise state, the handshake through a fresh buffered reader,
  the check that the reader is empty, then the multiplexer. The connection is returned as
  the call leaves it.
\<close>

definition InitiateSession ::
  "env \<Rightarrow> Porter \<Rightarrow> Conn \<Rightarrow> SecKey \<Rightarrow> PubKey \<Rightarrow> PubKey \<Rightarrow> (error + Session) \<times> Conn" where
  "InitiateSession E P conn sk pk rpk =
     (case noise_New E HandshakeXK \<lparr>LocalPK = pk, LocalSK = sk, RemotePK = rpk, Initiator = True\<rparr> of
        Inl e \<Rightarrow> (Inl e, conn)
      | Inr n \<Rightarrow>
          (case InitiatorHandshake E n NewReader (wire conn) of
             Inl e \<Rightarrow> (Inl e, conn)
           | Inr (n', r, w) \<Rightarrow>
               let conn1 = conn\<lparr>wire := w\<rparr> in
               if Buffered r > 0 then (Inl ErrHandshakeResidue, conn1)
               else (case yamux_start E MuxClient conn1 of
                       Inl e \<Rightarrow> (Inl e, conn1)
                     | Inr (ySes, conn2) \<Rightarrow>
                         (Inr \<lparr>lPK = pk, lSK = sk, rPK = rpk, ys = ySes, sesNs = n',
                               porter = P, lisStore = Map.empty\<rparr>, conn2))))"

text \<open>
  \<^verbatim>\<open>RespondSession\<close>: the same on the responding side; the remote key is the one the
  handshake has learned, and a server session has no porter.
\<close>

definition RespondSession ::
  "env \<Rightarrow> Conn \<Rightarrow> SecKey \<Rightarrow> PubKey \<Rightarrow> (error + Session) \<times> Conn" where
  "RespondSession E conn sk pk =
     (case noise_New E HandshakeXK \<lparr>LocalPK = pk, LocalSK = sk, RemotePK = [], Initiator = False\<rparr> of
        Inl e \<Rightarrow> (Inl e, conn)
      | Inr n \<Rightarrow>
          (case ResponderHandshake E n NewReader (wire conn) of
             Inl e \<Rightarrow> (Inl e, conn)
           | Inr (n', r, w) \<Rightarrow>
               let conn1 = conn\<lparr>wire := w\<rparr> in
               if Buffered r > 0 then (Inl ErrHandshakeResidue, conn1)
               else (case yamux_start E MuxServer conn1 of
                       Inl e \<Rightarrow> (Inl e, conn1)
                     | Inr (ySes, conn2) \<Rightarrow>
                         (Inr \<lparr>lPK = pk, lSK = sk, rPK = RemoteStatic E n', ys = ySes, sesNs = n',
                               porter = Map.empty, lisStore = Map.empty\<rparr>, conn2))))"

text \<open>
  \<^verbatim>\<open>Session.Close\<close>: go-away, then close the multiplexer session. The porter is not
  touched (the loop over its entries is commented out in the source).
\<close>

definition Session_Close :: "Session \<Rightarrow> error option \<times> Session" where
  "Session_Close s =
     (case GoAway (ys s) of
        (_, y1) \<Rightarrow> (case yses_Close y1 of (err, y2) \<Rightarrow> (err, s\<lparr>ys := y2\<rparr>)))"

subsection \<open>The relay\<close>

text \<open>
  The server's sessions live in a store; \<^verbatim>\<open>*Session\<close> is an address into it, and the
  session getter maps a public key to the address of that client's session.
\<close>

type_synonym SesStore = "nat \<rightharpoonup> Session"
type_synonym SessionGetter = "PubKey \<Rightarrow> nat option"

definition closeYStr :: "SesStore \<Rightarrow> nat \<Rightarrow> nat \<Rightarrow> SesStore" where
  "closeYStr H a sid =
     (case H a of
        None \<Rightarrow> H
      | Some s \<Rightarrow> H(a \<mapsto> s\<lparr>ys := snd (ystr_Close (ys s) sid)\<rparr>))"

text \<open>The closure \<^verbatim>\<open>readRequest\<close> of \<^verbatim>\<open>handleServerStream\<close>.\<close>

definition srv_readRequest ::
  "env \<Rightarrow> Session \<Rightarrow> nat \<Rightarrow> (error + StreamDialRequest) \<times> Session" where
  "srv_readRequest E s sid =
     (case readEncryptedGob_req (ys s) sid of
        Inl e \<Rightarrow> (Inl e, s)
      | Inr (req, y) \<Rightarrow>
          let s1 = s\<lparr>ys := y\<rparr> in
          (case ReqVerify E req 0 of
             Some e \<Rightarrow> (Inl ErrReqInvalidTimestamp, s1)
           | None \<Rightarrow>
               if PK (SrcAddr req) \<noteq> rPK s1 then (Inl ErrReqInvalidSrcPK, s1)
               else (Inr req, s1)))"

text \<open>
  \<^verbatim>\<open>forwardRequest\<close> on the destination session: open a sub-stream, write the request,
  read and verify the response; the sub-stream is closed on every failure after it is open.
\<close>

definition forwardRequest ::
  "env \<Rightarrow> Session \<Rightarrow> StreamDialRequest \<Rightarrow> frame list \<Rightarrow> (error + (nat \<times> DialResponse)) \<times> Session" where
  "forwardRequest E s req peer =
     (case OpenStream (ys s) peer of
        Inl e \<Rightarrow> (Inl e, s)
      | Inr (sid, y) \<Rightarrow>
          (case writeEncryptedGob y sid (FReq req) of
             Inl e \<Rightarrow> (Inl e, s\<lparr>ys := snd (ystr_Close y sid)\<rparr>)
           | Inr y1 \<Rightarrow>
               (case readEncryptedGob_resp y1 sid of
                  Inl e \<Rightarrow> (Inl e, s\<lparr>ys := snd (ystr_Close y1 sid)\<rparr>)
                | Inr (resp, y2) \<Rightarrow>
                    (case Verify_resp E resp (PK (DstAddr req)) (Hash E req) of
                       Some e \<Rightarrow> (Inl e, s\<lparr>ys := snd (ystr_Close y2 sid)\<rparr>)
                     | None \<Rightarrow> (Inr (sid, resp), s\<lparr>ys := y2\<rparr>)))))"

text \<open>
  Modelled from the spec: \<^verbatim>\<open>netutil.CopyReadWriter\<close> is not among the source files.
  Section 4.5, step 5: a bidirectional byte-pump between the two sub-streams, which copies
  bytes verbatim until one side ends. Here everything unread on either side is moved, as it
  is, to the other side's output.
\<close>

definition getYStr :: "SesStore \<Rightarrow> nat \<Rightarrow> nat \<Rightarrow> YStream option" where
  "getYStr H a sid = (case H a of None \<Rightarrow> None | Some s \<Rightarrow> streams (ys s) sid)"

definition putYStr :: "SesStore \<Rightarrow> nat \<Rightarrow> nat \<Rightarrow> YStream \<Rightarrow> SesStore" where
  "putYStr H a sid st =
     (case H a of
        None \<Rightarrow> H
      | Some s \<Rightarrow> H(a \<mapsto> s\<lparr>ys := (ys s)\<lparr>streams := (streams (ys s))(sid \<mapsto> st)\<rparr>\<rparr>))"

definition CopyReadWriter :: "SesStore \<Rightarrow> nat \<times> nat \<Rightarrow> nat \<times> nat \<Rightarrow> error option \<times> SesStore" where
  "CopyReadWriter H p q =
     (case (getYStr H (fst p) (snd p), getYStr H (fst q) (snd q)) of
        (Some st1, Some st2) \<Rightarrow>
          if closed st1 \<or> closed st2 then (Some ErrStreamClosed, H)
          else (None,
                putYStr
                  (putYStr H (fst p) (snd p) (st1\<lparr>rx := [], tx := tx st1 @ rx st2\<rparr>))
                  (fst q) (snd q) (st2\<lparr>rx := [], tx := tx st2 @ rx st1\<rparr>))
      | _ \<Rightarrow> (Some ErrStreamClosed, H))"

text \<open>
  \<^verbatim>\<open>handleServerStream\<close> on the session at address \<open>a\<close> and its sub-stream \<open>sid\<close>:
  read the request, get the destination session, forward the request and get the response,
  write the response back, then pump. \<open>peer\<close> is what the destination client is going to
  send on the forwarded sub-stream. The deferred close of the forwarded sub-stream runs on
  every return after \<^verbatim>\<open>forwardRequest\<close> has succeeded.
\<close>

definition handleServerStream ::
  "env \<Rightarrow> SessionGetter \<Rightarrow> SesStore \<Rightarrow> nat \<Rightarrow> nat \<Rightarrow> frame list \<Rightarrow> error option \<times> SesStore" where
  "handleServerStream E getter H a sid peer =
     (case H a of
        None \<Rightarrow> (Some (Panic ''nil session''), H)
      | Some s \<Rightarrow>
          (case srv_readRequest E s sid of
             (Inl e, s1) \<Rightarrow> (Some e, H(a \<mapsto> s1))
           | (Inr req, s1) \<Rightarrow>
               let H1 = H(a \<mapsto> s1) in
               (case getter (PK (DstAddr req)) of
                  None \<Rightarrow> (Some ErrReqNoSession, H1)
                | Some a2 \<Rightarrow>
                    (case H1 a2 of
                       None \<Rightarrow> (Some (Panic ''nil session''), H1)
                     | Some s2 \<Rightarrow>
                         (case forwardRequest E s2 req peer of
                            (Inl e, s2') \<Rightarrow> (Some e, H1(a2 \<mapsto> s2'))
                          | (Inr (sid2, resp), s2') \<Rightarrow>
                              let H2 = H1(a2 \<mapsto> s2') in
                              (case H2 a of
                                 None \<Rightarrow> (Some (Panic ''nil session''), H2)
                               | Some s3 \<Rightarrow>
                                   (case writeEncryptedGob (ys s3) sid (FResp resp) of
                                      Inl e \<Rightarrow> (Some e, closeYStr H2 a2 sid2)
                                    | Inr y \<Rightarrow>
                                        (case CopyReadWriter (H2(a \<mapsto> s3\<lparr>ys := y\<rparr>)) (a, sid) (a2, sid2) of
                                           (err, H3) \<Rightarrow> (err, closeYStr H3 a2 sid2)))))))))"

text \<open>
  \<^verbatim>\<open>AcceptServerStream\<close>: accept a sub-stream and run the handler on it; when the
  handler returns, the sub-stream is closed and the handler's error is logged. The result
  is the error of the accept, the logged error, and the store.
\<close>

definition AcceptServerStream ::
  "env \<Rightarrow> SessionGetter \<Rightarrow> SesStore \<Rightarrow> nat \<Rightarrow> frame list option \<Rightarrow> frame list
     \<Rightarrow> error option \<times> error option \<times> SesStore" where
  "AcceptServerStream E getter H a inbound peer =
     (case H a of
        None \<Rightarrow> (Some (Panic ''nil session''), None, H)
      | Some s \<Rightarrow>
          (case AcceptStream (ys s) inbound of
             Inl e \<Rightarrow> (Some e, None, H)
           | Inr (sid, y) \<Rightarrow>
               (case handleServerStream E getter (H(a \<mapsto> s\<lparr>ys := y\<rparr>)) a sid peer of
                  (err, H1) \<Rightarrow> (None, err, closeYStr H1 a sid))))"

section \<open>A concrete run\<close>

text \<open>
  A concrete instance of the collaborators, to run the model on: keys are one byte
  (\<open>''A''\<close>, \<open>''B''\<close>, the secret key equal to the public one), a signature is
  the key followed by the payload, the hash lists the keys and the handshake message, a
  request is refused when its timestamp is not later than the given one or its signature is
  wrong, and the session handshake reads one byte on the initiating side and two on the
  responding side, whatever else has arrived staying in the reader.
\<close>

definition demoHash :: "StreamDialRequest \<Rightarrow> bytes" where
  "demoHash r = PK (SrcAddr r) @ PK (DstAddr r) @ NoiseMsg r"

definition demoVerifySig :: "PubKey \<Rightarrow> bytes \<Rightarrow> bytes \<Rightarrow> bool" where
  "demoVerifySig pk sg p = (sg = pk @ p)"

definition demoReqVerify :: "StreamDialRequest \<Rightarrow> int \<Rightarrow> error option" where
  "demoReqVerify r lastTimestamp =
     (if Timestamp r \<le> lastTimestamp then Some ErrReqInvalidTimestamp
      else if \<not> demoVerifySig (PK (SrcAddr r)) (Sig r) (demoHash r) then Some ErrInvalidSignature
      else None)"

definition demoEnv :: env where
  "demoEnv =
     \<lparr>noise_New = (\<lambda>p c. Inr \<lparr>nsPattern = p, nsConfig = c, nsMsgs = 0\<rparr>),
      MakeHandshakeMessage = (\<lambda>n. Inr (''hs'', n\<lparr>nsMsgs := Suc (nsMsgs n)\<rparr>)),
      ProcessHandshakeMessage =
        (\<lambda>n m. if m = [] then Inl (ErrOther ''noise'') else Inr (n\<lparr>nsMsgs := Suc (nsMsgs n)\<rparr>)),
      InitiatorHandshake =
        (\<lambda>n r w. case wireIn w of
                    [] \<Rightarrow> Inl ErrEOF
                  | b # rest \<Rightarrow> Inr (n\<lparr>nsMsgs := 3\<rparr>, \<lparr>buffered = rest\<rparr>,
                                    \<lparr>wireIn = [], wireOut = wireOut w @ ''ac''\<rparr>)),
      ResponderHandshake =
        (\<lambda>n r w. case wireIn w of
                    a # c # rest \<Rightarrow> Inr (n\<lparr>nsMsgs := 3\<rparr>, \<lparr>buffered = rest\<rparr>,
                                        \<lparr>wireIn = [], wireOut = wireOut w @ ''b''\<rparr>)
                  | _ \<Rightarrow> Inl ErrEOF),
      RemoteStatic = (\<lambda>n. ''A''),
      Hash = demoHash,
      RespHash = (\<lambda>r. ReqHash r @ (if Accepted r then ''1'' else ''0'') @ RespNoiseMsg r),
      SignPayload = (\<lambda>p sk. sk @ p),
      VerifySignedPayload = demoVerifySig,
      ReqVerify = demoReqVerify,
      yamux_VerifyConfig = None\<rparr>"

definition demoNs :: Noise where
  "demoNs = \<lparr>nsPattern = HandshakeXK,
             nsConfig = \<lparr>LocalPK = [], LocalSK = [], RemotePK = [], Initiator = True\<rparr>,
             nsMsgs = 3\<rparr>"

definition oneStream :: "frame list \<Rightarrow> YSession" where
  "oneStream peer = \<lparr>streams = [1 \<mapsto> \<lparr>rx = peer, tx = [], closed = False\<rparr>], nextID = 2,
                     goAway = False, shutdown = False\<rparr>"

text \<open>
  Client \<open>A\<close> dials \<open>B:5000\<close>, where \<open>B\<close> has a listener. \<open>demoReq\<close> is the request
  \<open>A\<close> writes and \<open>demoResp\<close> the response \<open>B\<close> writes; each client's sub-stream \<open>1\<close>
  is going to receive what the other one sends.
\<close>

definition demoDst :: Addr where
  "demoDst = \<lparr>PK = ''B'', Port = 5000\<rparr>"

definition demoReq :: StreamDialRequest where
  "demoReq = \<lparr>Timestamp = 7, SrcAddr = \<lparr>PK = ''A'', Port = 49152\<rparr>, DstAddr = demoDst,
              NoiseMsg = ''hs'', Sig = ''AABhs''\<rparr>"

definition demoResp :: StreamDialResponse where
  "demoResp = \<lparr>ReqHash = ''ABhs'', Accepted = True, RespNoiseMsg = ''hs'', RespSig = ''BABhs1hs''\<rparr>"

definition demoCA :: ClientSession where
  "demoCA = \<lparr>lPK = ''A'', lSK = ''A'', rPK = ''S'', ys = oneStream [FResp demoResp], sesNs = demoNs,
             porter = Map.empty, lisStore = Map.empty\<rparr>"

definition demoCB :: ClientSession where
  "demoCB = \<lparr>lPK = ''B'', lSK = ''B'', rPK = ''S'', ys = oneStream [FReq demoReq], sesNs = demoNs,
             porter = [5000 \<mapsto> PVListener 0],
             lisStore = [0 \<mapsto> \<lparr>inbox = [], lisClosed = False\<rparr>]\<rparr>"

definition demoCA1 :: ClientSession where
  "demoCA1 = fst (snd (writeRequest demoEnv 7 0 demoCA (newStream 1) demoDst))"

definition demoSA1 :: Stream where
  "demoSA1 = snd (snd (writeRequest demoEnv 7 0 demoCA (newStream 1) demoDst))"

definition demoCB1 :: ClientSession where
  "demoCB1 = fst (snd (readRequest demoEnv demoCB (newStream 1)))"

definition demoSB1 :: Stream where
  "demoSB1 = snd (snd (readRequest demoEnv demoCB (newStream 1)))"

definition demoCB2 :: ClientSession where
  "demoCB2 = fst (snd (writeResponse demoEnv demoCB1 demoSB1 demoReq))"

definition demoSB2 :: Stream where
  "demoSB2 = snd (snd (writeResponse demoEnv demoCB1 demoSB1 demoReq))"

definition demoCA2 :: ClientSession where
  "demoCA2 = fst (snd (readResponse demoEnv demoCA1 demoSA1 demoReq))"

definition demoSA2 :: Stream where
  "demoSA2 = snd (snd (readResponse demoEnv demoCA1 demoSA1 demoReq))"

text \<open>A raw connection on which the bytes \<open>bs\<close> have arrived.\<close>

definition demoConn :: "bytes \<Rightarrow> Conn" where
  "demoConn bs = \<lparr>wire = \<lparr>wireIn = bs, wireOut = []\<rparr>, mux = None\<rparr>"

definition demoNsI :: Noise where
  "demoNsI = \<lparr>nsPattern = HandshakeXK,
              nsConfig = \<lparr>LocalPK = ''A'', LocalSK = ''A'', RemotePK = ''S'', Initiator = True\<rparr>,
              nsMsgs = 0\<rparr>"

definition demoNsR :: Noise where
  "demoNsR = \<lparr>nsPattern = HandshakeXK,
              nsConfig = \<lparr>LocalPK = ''S'', LocalSK = ''S'', RemotePK = [], Initiator = False\<rparr>,
              nsMsgs = 0\<rparr>"

text \<open>
  The relay \<open>S\<close> with the sessions of \<open>A\<close> (address \<open>0\<close>) and \<open>B\<close> (address \<open>1\<close>).
  \<open>demoForgedReq\<close> is a request that names \<open>M\<close> as its source, signed by \<open>M\<close>;
  \<open>demoStaleReq\<close> is the same request with the timestamp \<open>0\<close>, which the verification
  refuses.
\<close>

definition demoYS0 :: YSession where
  "demoYS0 = \<lparr>streams = Map.empty, nextID = 1, goAway = False, shutdown = False\<rparr>"

definition demoSrvSes :: "PubKey \<Rightarrow> Session" where
  "demoSrvSes pk = \<lparr>lPK = ''S'', lSK = ''S'', rPK = pk, ys = demoYS0, sesNs = demoNs,
                    porter = Map.empty, lisStore = Map.empty\<rparr>"

definition demoStore :: SesStore where
  "demoStore = [0 \<mapsto> demoSrvSes ''A'', 1 \<mapsto> demoSrvSes ''B'']"

definition demoGetter :: SessionGetter where
  "demoGetter pk = (if pk = ''A'' then Some 0 else if pk = ''B'' then Some 1 else None)"

definition demoForgedReq :: StreamDialRequest where
  "demoForgedReq = \<lparr>Timestamp = 7, SrcAddr = \<lparr>PK = ''M'', Port = 49152\<rparr>, DstAddr = demoDst,
                    NoiseMsg = ''hs'', Sig = ''MMBhs''\<rparr>"

definition demoStaleReq :: StreamDialRequest where
  "demoStaleReq = demoForgedReq\<lparr>Timestamp := 0\<rparr>"

definition demoStoreIn :: "frame list \<Rightarrow> SesStore" where
  "demoStoreIn fs = [0 \<mapsto> (demoSrvSes ''A'')\<lparr>ys := oneStream fs\<rparr>, 1 \<mapsto> demoSrvSes ''B'']"

text \<open>
  \<open>demoCA0\<close> is client \<open>A\<close> before it has opened a sub-stream; \<open>demoRejResp\<close> is a
  response to \<open>demoReq\<close>, signed by \<open>B\<close>, that does not accept.
\<close>

definition demoCA0 :: ClientSession where
  "demoCA0 = demoCA\<lparr>ys := demoYS0\<rparr>"

definition demoRejResp :: StreamDialResponse where
  "demoRejResp = \<lparr>ReqHash = ''ABhs'', Accepted = False, RespNoiseMsg = [], RespSig = ''BABhs0''\<rparr>"

text \<open>
  \<open>demoReq9\<close> is a request to \<open>B:9999\<close>, where \<open>B\<close> has no listener; \<open>demoCB9\<close>
  is client \<open>B\<close> with that request arriving on its sub-stream.
\<close>

definition demoReq9 :: StreamDialRequest where
  "demoReq9 = demoReq\<lparr>DstAddr := \<lparr>PK = ''B'', Port = 9999\<rparr>\<rparr>"

definition demoCB9 :: ClientSession where
  "demoCB9 = demoCB\<lparr>ys := oneStream [FReq demoReq9]\<rparr>"

definition demoCB91 :: ClientSession where
  "demoCB91 = fst (snd (readRequest demoEnv demoCB9 (newStream 1)))"

definition demoSB91 :: Stream where
  "demoSB91 = snd (snd (readRequest demoEnv demoCB9 (newStream 1)))"

section \<open>Properties\<close>

subsection \<open>Evaluation and basic facts\<close>

lemma probe_hit: "P (ephPort off) = None \<Longrightarrow> 0 < k \<Longrightarrow> probe P off k = Some (ephPort off)"
  by (cases k) simp_all

lemmas demo_defs = demoEnv_def demoHash_def demoVerifySig_def demoReqVerify_def demoDst_def
  demoReq_def demoResp_def oneStream_def demoCA_def demoCB_def demoNs_def newStream_def
  zeroAddr_def

lemmas stream_defs = writeRequest_def readRequest_def writeResponse_def readResponse_def
  ReserveEphemeral_def probe_hit ephPort_def prepareFields_def Sign_req_def Sign_resp_def
  Verify_resp_def writeEncryptedGob_def readEncryptedGob_req_def readEncryptedGob_resp_def
  ystr_Write_def ystr_Read_def ystr_Close_def PortValue_def introduceStream_def
  Session_LocalPK_def localSK_def call_freer_def Let_def

lemma demo_writeRequest: "fst (writeRequest demoEnv 7 0 demoCA (newStream 1) demoDst) = Inr demoReq"
  by (simp add: demo_defs stream_defs)

lemma demo_readRequest: "fst (readRequest demoEnv demoCB (newStream 1)) = Inr demoReq"
  by (simp add: demo_defs stream_defs)

lemma demo_writeResponse: "fst (writeResponse demoEnv demoCB1 demoSB1 demoReq) = None"
  by (simp add: demoCB1_def demoSB1_def demo_defs stream_defs)

lemma demo_readResponse: "fst (readResponse demoEnv demoCA1 demoSA1 demoReq) = None"
  by (simp add: demoCA1_def demoSA1_def demo_defs stream_defs)

lemma demo_step1: "writeRequest demoEnv 7 0 demoCA (newStream 1) demoDst = (Inr demoReq, demoCA1, demoSA1)"
  using demo_writeRequest by (simp add: demoCA1_def demoSA1_def prod_eq_iff)

lemma demo_step2: "readRequest demoEnv demoCB (newStream 1) = (Inr demoReq, demoCB1, demoSB1)"
  using demo_readRequest by (simp add: demoCB1_def demoSB1_def prod_eq_iff)

lemma demo_step3: "writeResponse demoEnv demoCB1 demoSB1 demoReq = (None, demoCB2, demoSB2)"
  using demo_writeResponse by (simp add: demoCB2_def demoSB2_def prod_eq_iff)

lemma demo_step4: "readResponse demoEnv demoCA1 demoSA1 demoReq = (None, demoCA2, demoSA2)"
  using demo_readResponse by (simp add: demoCA2_def demoSA2_def prod_eq_iff)

lemma probe_free: "probe P off k = Some p \<Longrightarrow> P p = None"
  by (induction k arbitrary: off) (auto split: if_splits)

lemma ReserveEphemeral_Inr:
  "ReserveEphemeral P seed v = Inr (p, fr, P') \<Longrightarrow>
     P p = None \<and> P' = P(p \<mapsto> v) \<and> fr = \<lparr>fPort = p, fDone = False\<rparr>"
  by (auto simp: ReserveEphemeral_def split: option.splits dest: probe_free)

lemma prepareFields_Inr:
  "prepareFields E cs s init lA rA = Inr s' \<Longrightarrow>
     lAddr s' = lA \<and> rAddr s' = rA \<and> close s' = close s \<and> yStr s' = yStr s \<and> ns s' \<noteq> None"
  by (auto simp: prepareFields_def split: sum.splits)

lemma writeRequest_Inr:
  assumes "writeRequest E now seed cs s rA = (Inr req, cs', s')"
  shows "\<exists>p. porter cs p = None \<and> porter cs' = (porter cs)(p \<mapsto> PVStream (yStr s))
            \<and> close s' = Some \<lparr>fPort = p, fDone = False\<rparr>
            \<and> lAddr s' = \<lparr>PK = Session_LocalPK cs, Port = p\<rparr> \<and> rAddr s' = rA
            \<and> SrcAddr req = lAddr s' \<and> DstAddr req = rA \<and> yStr s' = yStr s"
  using assms
  by (auto simp: writeRequest_def Let_def Sign_req_def Session_LocalPK_def
           split: sum.splits option.splits prod.splits
           dest!: ReserveEphemeral_Inr prepareFields_Inr)

lemma readRequest_Inr:
  assumes "readRequest E cs s = (Inr req, cs', s')"
  shows "lAddr s' = DstAddr req \<and> rAddr s' = SrcAddr req \<and> close s' = close s
          \<and> porter cs' = porter cs \<and> yStr s' = yStr s \<and> PK (DstAddr req) = Session_LocalPK cs"
  using assms
  by (auto simp: readRequest_def Let_def Session_LocalPK_def
           split: sum.splits option.splits prod.splits if_splits
           dest!: prepareFields_Inr)

lemma writeResponse_None:
  assumes "writeResponse E cs s req = (None, cs', s')"
  shows "lAddr s' = lAddr s \<and> rAddr s' = rAddr s \<and> close s' = close s
          \<and> porter cs' = porter cs \<and> yStr s' = yStr s
          \<and> (\<exists>la. porter cs (Port (lAddr s)) = Some (PVListener la))"
  using assms
  by (auto simp: writeResponse_def Let_def PortValue_def
           split: sum.splits option.splits prod.splits if_splits PortValue.splits)

lemma readResponse_fields:
  assumes "readResponse E cs s req = (r, cs', s')"
  shows "lAddr s' = lAddr s \<and> rAddr s' = rAddr s \<and> close s' = close s
          \<and> porter cs' = porter cs \<and> yStr s' = yStr s"
  using assms
  by (auto simp: readResponse_def Let_def
           split: sum.splits option.splits prod.splits if_splits)

subsection \<open>Addresses of a dial/accept pair\<close>

text \<open>
  Claim C10. For a successful dial/accept pair, where the accepting client reads the request
  the dialing client has written (the relay forwards it as it is) and both handshakes
  complete, the initiator's local address is the responder's remote address and the
  initiator's remote address is the responder's local address. The initiator's local
  address is its own public key with the port it has reserved in its porter; the
  responder's local and remote addresses are the request's \<open>DstAddr\<close> and \<open>SrcAddr\<close>.
\<close>

theorem dial_accept_addresses_agree:
  assumes "writeRequest E now seed csA sA dst = (Inr req, csA1, sA1)"
      and "readRequest E csB sB = (Inr req, csB1, sB1)"
      and "writeResponse E csB1 sB1 req = (None, csB2, sB2)"
      and "readResponse E csA1 sA1 req = (None, csA2, sA2)"
  shows "LocalAddr sA2 = RemoteAddr sB2 \<and> RemoteAddr sA2 = LocalAddr sB2
          \<and> PK (LocalAddr sA2) = Session_LocalPK csA
          \<and> porter csA2 (Port (LocalAddr sA2)) = Some (PVStream (yStr sA2))
          \<and> porter csA (Port (LocalAddr sA2)) = None
          \<and> LocalAddr sB2 = DstAddr req \<and> RemoteAddr sB2 = SrcAddr req"
proof -
  from writeRequest_Inr [OF assms(1)] obtain p where
    w: "porter csA p = None" "porter csA1 = (porter csA)(p \<mapsto> PVStream (yStr sA))"
       "lAddr sA1 = \<lparr>PK = Session_LocalPK csA, Port = p\<rparr>" "rAddr sA1 = dst"
       "SrcAddr req = lAddr sA1" "DstAddr req = dst" "yStr sA1 = yStr sA"
    by blast
  note r = readRequest_Inr [OF assms(2)]
  note wr = writeResponse_None [OF assms(3)]
  note rr = readResponse_fields [OF assms(4)]
  show ?thesis
    using w r wr rr by (simp add: LocalAddr_def RemoteAddr_def)
qed

theorem dial_accept_addresses_agree_witness:
  "writeRequest demoEnv 7 0 demoCA (newStream 1) demoDst = (Inr demoReq, demoCA1, demoSA1)
   \<and> readRequest demoEnv demoCB (newStream 1) = (Inr demoReq, demoCB1, demoSB1)
   \<and> writeResponse demoEnv demoCB1 demoSB1 demoReq = (None, demoCB2, demoSB2)
   \<and> readResponse demoEnv demoCA1 demoSA1 demoReq = (None, demoCA2, demoSA2)
   \<and> LocalAddr demoSA2 = RemoteAddr demoSB2 \<and> RemoteAddr demoSA2 = LocalAddr demoSB2
   \<and> LocalAddr demoSA2 = \<lparr>PK = ''A'', Port = 49152\<rparr>
   \<and> LocalAddr demoSB2 = \<lparr>PK = ''B'', Port = 5000\<rparr>"
proof -
  note t = dial_accept_addresses_agree [OF demo_step1 demo_step2 demo_step3 demo_step4]
  have "LocalAddr demoSB2 = \<lparr>PK = ''B'', Port = 5000\<rparr>"
    using t by (simp add: demoReq_def demoDst_def)
  moreover have "LocalAddr demoSA2 = \<lparr>PK = ''A'', Port = 49152\<rparr>"
    using t by (simp add: demoReq_def demoDst_def)
  ultimately show ?thesis
    using demo_step1 demo_step2 demo_step3 demo_step4 t by simp
qed

subsection \<open>Session bring-up\<close>

lemma InitiateSession_cases:
  "InitiateSession E P conn sk pk rpk = (res, c) \<Longrightarrow>
     (case res of
        Inl e \<Rightarrow> mux c = mux conn
      | Inr ses \<Rightarrow>
          (\<exists>n n' r w. noise_New E HandshakeXK \<lparr>LocalPK = pk, LocalSK = sk, RemotePK = rpk, Initiator = True\<rparr> = Inr n
             \<and> InitiatorHandshake E n NewReader (wire conn) = Inr (n', r, w)
             \<and> Buffered r = 0 \<and> c = conn\<lparr>wire := w, mux := Some MuxClient\<rparr>))"
  by (auto simp: InitiateSession_def yamux_start_def Let_def
           split: sum.splits option.splits prod.splits if_splits)

lemma RespondSession_cases:
  "RespondSession E conn sk pk = (res, c) \<Longrightarrow>
     (case res of
        Inl e \<Rightarrow> mux c = mux conn
      | Inr ses \<Rightarrow>
          (\<exists>n n' r w. noise_New E HandshakeXK \<lparr>LocalPK = pk, LocalSK = sk, RemotePK = [], Initiator = False\<rparr> = Inr n
             \<and> ResponderHandshake E n NewReader (wire conn) = Inr (n', r, w)
             \<and> Buffered r = 0 \<and> c = conn\<lparr>wire := w, mux := Some MuxServer\<rparr>))"
  by (auto simp: RespondSession_def yamux_start_def Let_def
           split: sum.splits option.splits prod.splits if_splits)

text \<open>
  Claim C3. On the initiating and on the responding side, when the buffered reader of the
  session handshake still holds bytes after the handshake, the bring-up fails with the
  residue error and the connection is left as the handshake left it, the multiplexer not
  started; no failure of the bring-up starts the multiplexer; and a session is only created
  when the reader is empty, the multiplexer then being started in the side's role.
\<close>

theorem session_bringup_residue:
  "(noise_New E HandshakeXK \<lparr>LocalPK = pk, LocalSK = sk, RemotePK = rpk, Initiator = True\<rparr> = Inr n \<longrightarrow>
      InitiatorHandshake E n NewReader (wire conn) = Inr (n', r, w) \<longrightarrow> 0 < Buffered r \<longrightarrow>
      InitiateSession E P conn sk pk rpk = (Inl ErrHandshakeResidue, conn\<lparr>wire := w\<rparr>))
   \<and> (noise_New E HandshakeXK \<lparr>LocalPK = pk, LocalSK = sk, RemotePK = [], Initiator = False\<rparr> = Inr m \<longrightarrow>
      ResponderHandshake E m NewReader (wire conn) = Inr (m', r2, w2) \<longrightarrow> 0 < Buffered r2 \<longrightarrow>
      RespondSession E conn sk pk = (Inl ErrHandshakeResidue, conn\<lparr>wire := w2\<rparr>))
   \<and> (\<forall>e c. InitiateSession E P conn sk pk rpk = (Inl e, c) \<longrightarrow> mux c = mux conn)
   \<and> (\<forall>e c. RespondSession E conn sk pk = (Inl e, c) \<longrightarrow> mux c = mux conn)
   \<and> (\<forall>ses c. InitiateSession E P conn sk pk rpk = (Inr ses, c) \<longrightarrow>
        (\<exists>n n' r w. noise_New E HandshakeXK \<lparr>LocalPK = pk, LocalSK = sk, RemotePK = rpk, Initiator = True\<rparr> = Inr n
           \<and> InitiatorHandshake E n NewReader (wire conn) = Inr (n', r, w)
           \<and> Buffered r = 0 \<and> c = conn\<lparr>wire := w, mux := Some MuxClient\<rparr>))
   \<and> (\<forall>ses c. RespondSession E conn sk pk = (Inr ses, c) \<longrightarrow>
        (\<exists>n n' r w. noise_New E HandshakeXK \<lparr>LocalPK = pk, LocalSK = sk, RemotePK = [], Initiator = False\<rparr> = Inr n
           \<and> ResponderHandshake E n NewReader (wire conn) = Inr (n', r, w)
           \<and> Buffered r = 0 \<and> c = conn\<lparr>wire := w, mux := Some MuxServer\<rparr>))"
proof (intro conjI allI impI)
  assume "noise_New E HandshakeXK \<lparr>LocalPK = pk, LocalSK = sk, RemotePK = rpk, Initiator = True\<rparr> = Inr n"
    and "InitiatorHandshake E n NewReader (wire conn) = Inr (n', r, w)" and "0 < Buffered r"
  then show "InitiateSession E P conn sk pk rpk = (Inl ErrHandshakeResidue, conn\<lparr>wire := w\<rparr>)"
    by (simp add: InitiateSession_def)
next
  assume "noise_New E HandshakeXK \<lparr>LocalPK = pk, LocalSK = sk, RemotePK = [], Initiator = False\<rparr> = Inr m"
    and "ResponderHandshake E m NewReader (wire conn) = Inr (m', r2, w2)" and "0 < Buffered r2"
  then show "RespondSession E conn sk pk = (Inl ErrHandshakeResidue, conn\<lparr>wire := w2\<rparr>)"
    by (simp add: RespondSession_def)
next
  fix e c assume "InitiateSession E P conn sk pk rpk = (Inl e, c)"
  from InitiateSession_cases [OF this] show "mux c = mux conn" by simp
next
  fix e c assume "RespondSession E conn sk pk = (Inl e, c)"
  from RespondSession_cases [OF this] show "mux c = mux conn" by simp
next
  fix ses c assume "InitiateSession E P conn sk pk rpk = (Inr ses, c)"
  from InitiateSession_cases [OF this]
  show "\<exists>n n' r w. noise_New E HandshakeXK \<lparr>LocalPK = pk, LocalSK = sk, RemotePK = rpk, Initiator = True\<rparr> = Inr n
           \<and> InitiatorHandshake E n NewReader (wire conn) = Inr (n', r, w)
           \<and> Buffered r = 0 \<and> c = conn\<lparr>wire := w, mux := Some MuxClient\<rparr>"
    by simp
next
  fix ses c assume "RespondSession E conn sk pk = (Inr ses, c)"
  from RespondSession_cases [OF this]
  show "\<exists>n n' r w. noise_New E HandshakeXK \<lparr>LocalPK = pk, LocalSK = sk, RemotePK = [], Initiator = False\<rparr> = Inr n
           \<and> ResponderHandshake E n NewReader (wire conn) = Inr (n', r, w)
           \<and> Buffered r = 0 \<and> c = conn\<lparr>wire := w, mux := Some MuxServer\<rparr>"
    by simp
qed

theorem session_bringup_residue_witness:
  "noise_New demoEnv HandshakeXK \<lparr>LocalPK = ''A'', LocalSK = ''A'', RemotePK = ''S'', Initiator = True\<rparr> = Inr demoNsI
   \<and> InitiatorHandshake demoEnv demoNsI NewReader (wire (demoConn ''bX''))
       = Inr (demoNsI\<lparr>nsMsgs := 3\<rparr>, \<lparr>buffered = ''X''\<rparr>, \<lparr>wireIn = [], wireOut = ''ac''\<rparr>)
   \<and> 0 < Buffered \<lparr>buffered = ''X''\<rparr>
   \<and> InitiateSession demoEnv Map.empty (demoConn ''bX'') ''A'' ''A'' ''S''
       = (Inl ErrHandshakeResidue, \<lparr>wire = \<lparr>wireIn = [], wireOut = ''ac''\<rparr>, mux = None\<rparr>)
   \<and> noise_New demoEnv HandshakeXK \<lparr>LocalPK = ''S'', LocalSK = ''S'', RemotePK = [], Initiator = False\<rparr> = Inr demoNsR
   \<and> ResponderHandshake demoEnv demoNsR NewReader (wire (demoConn ''acX''))
       = Inr (demoNsR\<lparr>nsMsgs := 3\<rparr>, \<lparr>buffered = ''X''\<rparr>, \<lparr>wireIn = [], wireOut = ''b''\<rparr>)
   \<and> RespondSession demoEnv (demoConn ''acX'') ''S'' ''S''
       = (Inl ErrHandshakeResidue, \<lparr>wire = \<lparr>wireIn = [], wireOut = ''b''\<rparr>, mux = None\<rparr>)"
proof -
  have a1: "noise_New demoEnv HandshakeXK \<lparr>LocalPK = ''A'', LocalSK = ''A'', RemotePK = ''S'', Initiator = True\<rparr> = Inr demoNsI"
    by (simp add: demoEnv_def demoNsI_def)
  have a2: "InitiatorHandshake demoEnv demoNsI NewReader (wire (demoConn ''bX''))
       = Inr (demoNsI\<lparr>nsMsgs := 3\<rparr>, \<lparr>buffered = ''X''\<rparr>, \<lparr>wireIn = [], wireOut = ''ac''\<rparr>)"
    by (simp add: demoEnv_def demoConn_def)
  have a3: "0 < Buffered \<lparr>buffered = ''X''\<rparr>"
    by (simp add: Buffered_def)
  have b1: "noise_New demoEnv HandshakeXK \<lparr>LocalPK = ''S'', LocalSK = ''S'', RemotePK = [], Initiator = False\<rparr> = Inr demoNsR"
    by (simp add: demoEnv_def demoNsR_def)
  have b2: "ResponderHandshake demoEnv demoNsR NewReader (wire (demoConn ''acX''))
       = Inr (demoNsR\<lparr>nsMsgs := 3\<rparr>, \<lparr>buffered = ''X''\<rparr>, \<lparr>wireIn = [], wireOut = ''b''\<rparr>)"
    by (simp add: demoEnv_def demoConn_def)
  note t = session_bringup_residue [of demoEnv "''A''" "''A''" "''S''" demoNsI "demoConn ''bX''"
      "demoNsI\<lparr>nsMsgs := 3\<rparr>" "\<lparr>buffered = ''X''\<rparr>" "\<lparr>wireIn = [], wireOut = ''ac''\<rparr>" Map.empty]
  note u = session_bringup_residue [of demoEnv "''S''" "''S''" _ _ "demoConn ''acX''" _ _ _ _ demoNsR
      "demoNsR\<lparr>nsMsgs := 3\<rparr>" "\<lparr>buffered = ''X''\<rparr>" "\<lparr>wireIn = [], wireOut = ''b''\<rparr>"]
  have c1: "InitiateSession demoEnv Map.empty (demoConn ''bX'') ''A'' ''A'' ''S''
       = (Inl ErrHandshakeResidue, \<lparr>wire = \<lparr>wireIn = [], wireOut = ''ac''\<rparr>, mux = None\<rparr>)"
    using t a1 a2 a3 by (simp add: demoConn_def)
  have c2: "RespondSession demoEnv (demoConn ''acX'') ''S'' ''S''
       = (Inl ErrHandshakeResidue, \<lparr>wire = \<lparr>wireIn = [], wireOut = ''b''\<rparr>, mux = None\<rparr>)"
    using u b1 b2 a3 by (simp add: demoConn_def)
  show ?thesis using a1 a2 a3 b1 b2 c1 c2 by simp
qed

subsection \<open>The relay checks the source of a request\<close>

lemma AcceptStream_Inr:
  "AcceptStream y inbound = Inr (sid, y') \<Longrightarrow>
     sid = nextID y \<and> nextID y' = Suc (nextID y) \<and> shutdown y' = shutdown y
     \<and> (\<exists>peer. inbound = Some peer
          \<and> streams y' = (streams y)(sid \<mapsto> \<lparr>rx = peer, tx = [], closed = False\<rparr>))"
  by (auto simp: AcceptStream_def split: if_splits option.splits)

lemma readEncryptedGob_req_Inr:
  "readEncryptedGob_req y sid = Inr (req, y') \<Longrightarrow>
     \<exists>st fs. streams y sid = Some st \<and> \<not> closed st \<and> rx st = FReq req # fs
        \<and> y' = y\<lparr>streams := (streams y)(sid \<mapsto> st\<lparr>rx := fs\<rparr>)\<rparr>"
  by (auto simp: readEncryptedGob_req_def ystr_Read_def
           split: sum.splits option.splits if_splits list.splits frame.splits)

lemma srv_readRequest_bad_source:
  assumes "readEncryptedGob_req (ys s) sid = Inr (req, y')" and "PK (SrcAddr req) \<noteq> rPK s"
  shows "srv_readRequest E s sid =
           (Inl (if ReqVerify E req 0 = None then ErrReqInvalidSrcPK else ErrReqInvalidTimestamp),
            s\<lparr>ys := y'\<rparr>)"
  using assms by (auto simp: srv_readRequest_def Let_def split: option.splits)

lemma handleServerStream_bad_source:
  assumes "H a = Some s" and "readEncryptedGob_req (ys s) sid = Inr (req, y')"
      and "PK (SrcAddr req) \<noteq> rPK s"
  shows "handleServerStream E getter H a sid peer =
           (Some (if ReqVerify E req 0 = None then ErrReqInvalidSrcPK else ErrReqInvalidTimestamp),
            H(a \<mapsto> s\<lparr>ys := y'\<rparr>))"
  using assms(1) srv_readRequest_bad_source [OF assms(2,3), of E]
  by (simp add: handleServerStream_def)

text \<open>
  Claim C4, as amended. For every request the server reads on an inbound sub-stream whose
  \<open>SrcAddr.PK\<close> is not the authenticated peer key of that session, the request is
  rejected, with \<open>ErrReqInvalidSrcPK\<close> when its verification passes and with
  \<open>ErrReqInvalidTimestamp\<close> when it does not; the sub-stream is closed with nothing
  written on it, no sub-stream is opened, and every other session is left as it was: the
  request is not forwarded.
\<close>

theorem invalid_source_rejected:
  assumes "H a = Some s"
      and "AcceptStream (ys s) inbound = Inr (sid, y)"
      and "readEncryptedGob_req y sid = Inr (req, y')"
      and "PK (SrcAddr req) \<noteq> rPK s"
  shows "\<exists>H' s' st.
           AcceptServerStream E getter H a inbound peer =
             (None,
              Some (if ReqVerify E req 0 = None then ErrReqInvalidSrcPK else ErrReqInvalidTimestamp),
              H')
           \<and> (\<forall>b. b \<noteq> a \<longrightarrow> H' b = H b)
           \<and> H' a = Some s' \<and> streams (ys s') sid = Some st \<and> closed st \<and> tx st = []
           \<and> dom (streams (ys s')) = insert sid (dom (streams (ys s)))
           \<and> nextID (ys s') = Suc (nextID (ys s))"
proof -
  let ?e = "if ReqVerify E req 0 = None then ErrReqInvalidSrcPK else ErrReqInvalidTimestamp"
  let ?s1 = "s\<lparr>ys := y\<rparr>"
  let ?H1 = "H(a \<mapsto> ?s1)"
  from AcceptStream_Inr [OF assms(2)] obtain peer0 where
    acc: "nextID y = Suc (nextID (ys s))"
         "streams y = (streams (ys s))(sid \<mapsto> \<lparr>rx = peer0, tx = [], closed = False\<rparr>)"
    by blast
  from readEncryptedGob_req_Inr [OF assms(3)] obtain st fs where
    rd: "streams y sid = Some st" "y' = y\<lparr>streams := (streams y)(sid \<mapsto> st\<lparr>rx := fs\<rparr>)\<rparr>"
    by blast
  have st: "tx st = []" using acc(2) rd(1) by auto
  have h: "handleServerStream E getter ?H1 a sid peer = (Some ?e, ?H1(a \<mapsto> ?s1\<lparr>ys := y'\<rparr>))"
    by (rule handleServerStream_bad_source) (use assms in simp_all)
  let ?s' = "s\<lparr>ys := snd (ystr_Close y' sid)\<rparr>"
  have res: "AcceptServerStream E getter H a inbound peer = (None, Some ?e, H(a \<mapsto> ?s'))"
    using assms(1,2) h by (simp add: AcceptServerStream_def closeYStr_def)
  have cl: "streams (ys ?s') sid = Some (st\<lparr>rx := fs, closed := True\<rparr>)"
    using rd by (simp add: ystr_Close_def)
  have dm: "dom (streams (ys ?s')) = insert sid (dom (streams (ys s)))"
    using rd acc(2) by (auto simp: ystr_Close_def split: if_splits)
  have nx: "nextID (ys ?s') = Suc (nextID (ys s))"
    using rd acc(1) by (simp add: ystr_Close_def)
  show ?thesis
    using res cl dm nx st by simp
qed

lemma demo_accept: "AcceptStream (ys (demoSrvSes ''A'')) (Some [FReq demoForgedReq])
                      = Inr (1, oneStream [FReq demoForgedReq])"
  by (simp add: AcceptStream_def demoSrvSes_def demoYS0_def oneStream_def)

lemma demo_read_forged:
  "readEncryptedGob_req (oneStream [FReq demoForgedReq]) 1 = Inr (demoForgedReq, oneStream [])"
  by (simp add: readEncryptedGob_req_def ystr_Read_def oneStream_def)

theorem invalid_source_rejected_witness:
  "demoStore 0 = Some (demoSrvSes ''A'')
   \<and> AcceptStream (ys (demoSrvSes ''A'')) (Some [FReq demoForgedReq]) = Inr (1, oneStream [FReq demoForgedReq])
   \<and> readEncryptedGob_req (oneStream [FReq demoForgedReq]) 1 = Inr (demoForgedReq, oneStream [])
   \<and> PK (SrcAddr demoForgedReq) \<noteq> rPK (demoSrvSes ''A'')
   \<and> ReqVerify demoEnv demoForgedReq 0 = None
   \<and> fst (snd (AcceptServerStream demoEnv demoGetter demoStore 0 (Some [FReq demoForgedReq]) []))
       = Some ErrReqInvalidSrcPK
   \<and> snd (snd (AcceptServerStream demoEnv demoGetter demoStore 0 (Some [FReq demoForgedReq]) [])) 1
       = demoStore 1"
proof -
  have h1: "demoStore 0 = Some (demoSrvSes ''A'')" by (simp add: demoStore_def)
  have h4: "PK (SrcAddr demoForgedReq) \<noteq> rPK (demoSrvSes ''A'')"
    by (simp add: demoForgedReq_def demoSrvSes_def)
  have v: "ReqVerify demoEnv demoForgedReq 0 = None"
    by (simp add: demo_defs demoForgedReq_def)
  from invalid_source_rejected [where H = demoStore and a = 0 and E = demoEnv
      and getter = demoGetter and peer = "[]", OF h1 demo_accept demo_read_forged h4]
  obtain H' where
    "AcceptServerStream demoEnv demoGetter demoStore 0 (Some [FReq demoForgedReq]) []
       = (None, Some ErrReqInvalidSrcPK, H')" and "\<forall>b. b \<noteq> 0 \<longrightarrow> H' b = demoStore b"
    using v by auto
  then show ?thesis using h1 h4 v demo_accept demo_read_forged by simp
qed

text \<open>
  Claim C4 as stated fails: a request on the session of \<open>A\<close> that names \<open>M\<close> as its
  source and does not pass the verification is rejected with \<open>ErrReqInvalidTimestamp\<close>,
  not with \<open>ErrReqInvalidSrcPK\<close>, since the verification comes first.
\<close>

theorem invalid_source_counterexample:
  "demoStoreIn [FReq demoStaleReq] 0 = Some ((demoSrvSes ''A'')\<lparr>ys := oneStream [FReq demoStaleReq]\<rparr>)
   \<and> PK (SrcAddr demoStaleReq) \<noteq> rPK (demoSrvSes ''A'')
   \<and> fst (handleServerStream demoEnv demoGetter (demoStoreIn [FReq demoStaleReq]) 0 1 [])
       = Some ErrReqInvalidTimestamp
   \<and> fst (handleServerStream demoEnv demoGetter (demoStoreIn [FReq demoStaleReq]) 0 1 [])
       \<noteq> Some ErrReqInvalidSrcPK"
  by (simp add: handleServerStream_def srv_readRequest_def readEncryptedGob_req_def ystr_Read_def
        demoStoreIn_def demoSrvSes_def demoStaleReq_def demoForgedReq_def demo_defs)

subsection \<open>The dial\<close>

lemma newInitiatingStream_Inr:
  "newInitiatingStream cs peer = Inr (s, cs') \<Longrightarrow>
     porter cs' = porter cs \<and> \<not> shutdown (ys cs')
     \<and> streams (ys cs') (yStr s) = Some \<lparr>rx = peer, tx = [], closed = False\<rparr>"
  by (auto simp: newInitiatingStream_def OpenStream_def newStream_def split: if_splits)

lemma ystr_Write_Inr:
  "ystr_Write y sid f = Inr y' \<Longrightarrow>
     \<exists>st. streams y sid = Some st \<and> shutdown y' = shutdown y
        \<and> streams y' = (streams y)(sid \<mapsto> st\<lparr>tx := tx st @ [f]\<rparr>)"
  by (auto simp: ystr_Write_def split: option.splits if_splits)

lemma writeRequest_reserved:
  assumes "ReserveEphemeral (porter cs) seed (PVStream (yStr s)) = Inr (p, fr, P)"
      and "writeRequest E now seed cs s rA = (r, cs', s')"
  shows "porter cs' = P \<and> close s' = Some fr \<and> yStr s' = yStr s"
  using assms
  by (auto simp: writeRequest_def Let_def
           split: sum.splits option.splits prod.splits dest!: prepareFields_Inr)

lemma writeRequest_substream:
  assumes "writeRequest E now seed cs s rA = (r, cs', s')"
      and "streams (ys cs) (yStr s) = Some st"
  shows "\<exists>st'. streams (ys cs') (yStr s) = Some st' \<and> rx st' = rx st \<and> closed st' = closed st
           \<and> shutdown (ys cs') = shutdown (ys cs)"
  using assms
  by (auto simp: writeRequest_def Let_def writeEncryptedGob_def
           split: sum.splits option.splits prod.splits
           dest!: prepareFields_Inr ystr_Write_Inr)

lemma readResponse_substream:
  assumes "readResponse E cs s req = (r, cs', s')"
      and "streams (ys cs) (yStr s) = Some st"
  shows "\<exists>st'. streams (ys cs') (yStr s) = Some st'"
  using assms
  by (auto simp: readResponse_def Let_def readEncryptedGob_resp_def ystr_Read_def
           split: sum.splits option.splits prod.splits if_splits list.splits frame.splits)

lemma Stream_Close_releases:
  assumes "close s = Some \<lparr>fPort = p, fDone = False\<rparr>"
      and "streams (ys cs) (yStr s) = Some st"
      and "Stream_Close cs (Some s) = (err, cs', so)"
  shows "porter cs' = (porter cs)(p := None)
          \<and> (\<exists>st'. streams (ys cs') (yStr s) = Some st' \<and> closed st')
          \<and> so = Some (s\<lparr>close := Some \<lparr>fPort = p, fDone = True\<rparr>\<rparr>)"
  using assms by (auto simp: call_freer_def ystr_Close_def split: prod.splits)

lemma readResponse_bad:
  assumes "streams (ys cs) (yStr s) = Some st" and "\<not> closed st" and "rx st = FResp resp # fs"
      and "ReqHash resp \<noteq> Hash E req
            \<or> \<not> VerifySignedPayload E (PK (DstAddr req)) (RespSig resp) (RespHash E resp)
            \<or> \<not> Accepted resp"
  shows "\<exists>cs'. readResponse E cs s req =
           (Some (if ReqHash resp \<noteq> Hash E req then ErrRequestHashMismatch
                  else if \<not> VerifySignedPayload E (PK (DstAddr req)) (RespSig resp) (RespHash E resp)
                    then ErrInvalidSignature
                  else ErrRejected), cs', s)"
  using assms
  by (auto simp: readResponse_def readEncryptedGob_resp_def ystr_Read_def Verify_resp_def Let_def)

text \<open>
  Claim C2. For every dial, when the response that arrives has a request hash other than
  the hash of the outstanding request, or a signature that is not valid under the
  destination's public key, or \<open>Accepted\<close> false, \<^verbatim>\<open>readResponse\<close> fails and leaves the
  stream as it was (the response's handshake message is not processed), and the dial
  returns that error and no stream. The error is \<open>ErrRequestHashMismatch\<close> when the hash
  differs, and \<open>ErrRejected\<close> when hash and signature are right and \<open>Accepted\<close> is
  false.
\<close>

theorem bad_response_not_surfaced:
  assumes "newInitiatingStream cs (FResp resp # rest) = Inr (s0, cs0)"
      and "writeRequest E now seed cs0 s0 dst = (Inr req, cs1, s1)"
      and "ReqHash resp \<noteq> Hash E req
            \<or> \<not> VerifySignedPayload E (PK dst) (RespSig resp) (RespHash E resp)
            \<or> \<not> Accepted resp"
  shows "\<exists>e cs2. readResponse E cs1 s1 req = (Some e, cs2, s1)
           \<and> fst (DialStream E now seed cs dst (FResp resp # rest)) = Some e
           \<and> dialed (DialStream E now seed cs dst (FResp resp # rest)) = None
           \<and> (ReqHash resp \<noteq> Hash E req \<longrightarrow> e = ErrRequestHashMismatch)
           \<and> (ReqHash resp = Hash E req
                \<and> VerifySignedPayload E (PK dst) (RespSig resp) (RespHash E resp)
                \<and> \<not> Accepted resp \<longrightarrow> e = ErrRejected)"
proof -
  let ?e = "if ReqHash resp \<noteq> Hash E req then ErrRequestHashMismatch
            else if \<not> VerifySignedPayload E (PK (DstAddr req)) (RespSig resp) (RespHash E resp)
              then ErrInvalidSignature
            else ErrRejected"
  from newInitiatingStream_Inr [OF assms(1)]
  have s0: "streams (ys cs0) (yStr s0) = Some \<lparr>rx = FResp resp # rest, tx = [], closed = False\<rparr>"
    by simp
  from writeRequest_Inr [OF assms(2)] have d: "DstAddr req = dst" "yStr s1 = yStr s0"
    by auto
  from writeRequest_substream [OF assms(2) s0] d obtain st where
    st: "streams (ys cs1) (yStr s1) = Some st" "rx st = FResp resp # rest" "\<not> closed st"
    by auto
  from readResponse_bad [OF st(1) st(3) st(2), of E req] assms(3) d obtain cs2 where
    rr: "readResponse E cs1 s1 req = (Some ?e, cs2, s1)"
    by auto
  have "fst (DialStream E now seed cs dst (FResp resp # rest)) = Some ?e"
    using assms(1,2) rr by (simp add: DialStream_def split: prod.splits)
  moreover have "dialed (DialStream E now seed cs dst (FResp resp # rest)) = None"
    using assms(1,2) rr by (simp add: DialStream_def dialed_def split: prod.splits)
  ultimately show ?thesis
    using rr d by auto
qed

lemma demo_open:
  "newInitiatingStream demoCA0 peer = Inr (newStream 1, demoCA\<lparr>ys := oneStream peer\<rparr>)"
  by (simp add: newInitiatingStream_def OpenStream_def demoCA0_def demoCA_def demoYS0_def
        oneStream_def)

lemma demo_writeRequest_peer:
  "fst (writeRequest demoEnv 7 0 (demoCA\<lparr>ys := oneStream peer\<rparr>) (newStream 1) demoDst) = Inr demoReq"
  by (simp add: demo_defs stream_defs)

lemma demo_reserve:
  "ReserveEphemeral (porter (demoCA\<lparr>ys := oneStream peer\<rparr>)) 0 (PVStream (yStr (newStream 1)))
     = Inr (49152, \<lparr>fPort = 49152, fDone = False\<rparr>, [49152 \<mapsto> PVStream 1])"
  by (simp add: demo_defs stream_defs)

theorem bad_response_not_surfaced_witness:
  "newInitiatingStream demoCA0 [FResp demoRejResp] = Inr (newStream 1, demoCA\<lparr>ys := oneStream [FResp demoRejResp]\<rparr>)
   \<and> fst (writeRequest demoEnv 7 0 (demoCA\<lparr>ys := oneStream [FResp demoRejResp]\<rparr>) (newStream 1) demoDst)
       = Inr demoReq
   \<and> ReqHash demoRejResp = Hash demoEnv demoReq
   \<and> VerifySignedPayload demoEnv (PK demoDst) (RespSig demoRejResp) (RespHash demoEnv demoRejResp)
   \<and> \<not> Accepted demoRejResp
   \<and> fst (DialStream demoEnv 7 0 demoCA0 demoDst [FResp demoRejResp]) = Some ErrRejected
   \<and> dialed (DialStream demoEnv 7 0 demoCA0 demoDst [FResp demoRejResp]) = None"
proof -
  let ?cs0 = "demoCA\<lparr>ys := oneStream [FResp demoRejResp]\<rparr>"
  have h2: "writeRequest demoEnv 7 0 ?cs0 (newStream 1) demoDst
             = (Inr demoReq, fst (snd (writeRequest demoEnv 7 0 ?cs0 (newStream 1) demoDst)),
                snd (snd (writeRequest demoEnv 7 0 ?cs0 (newStream 1) demoDst)))"
    using demo_writeRequest_peer [of "[FResp demoRejResp]"] by (simp add: prod_eq_iff)
  have a: "ReqHash demoRejResp = Hash demoEnv demoReq"
    by (simp add: demo_defs demoRejResp_def)
  have b: "VerifySignedPayload demoEnv (PK demoDst) (RespSig demoRejResp) (RespHash demoEnv demoRejResp)"
    by (simp add: demo_defs demoRejResp_def)
  have c: "\<not> Accepted demoRejResp"
    by (simp add: demoRejResp_def)
  have h3: "ReqHash demoRejResp \<noteq> Hash demoEnv demoReq
            \<or> \<not> VerifySignedPayload demoEnv (PK demoDst) (RespSig demoRejResp) (RespHash demoEnv demoRejResp)
            \<or> \<not> Accepted demoRejResp"
    using c by simp
  from bad_response_not_surfaced [OF demo_open h2 h3] a b c
  have "fst (DialStream demoEnv 7 0 demoCA0 demoDst [FResp demoRejResp]) = Some ErrRejected
        \<and> dialed (DialStream demoEnv 7 0 demoCA0 demoDst [FResp demoRejResp]) = None"
    by auto
  then show ?thesis
    using demo_open demo_writeRequest_peer [of "[FResp demoRejResp]"] a b c by simp
qed

text \<open>
  Claim C6. For every dial, when a step fails after the ephemeral port has been reserved
  (making the handshake message, writing the request, reading the response, verifying it,
  processing its handshake message), the dial returns the error and no stream, and by then
  the reservation is released (the lookup of the port is absent and the porter is as
  before the dial) and the sub-stream is closed.
\<close>

theorem dial_failure_releases_port:
  assumes "newInitiatingStream cs peer = Inr (s0, cs0)"
      and "ReserveEphemeral (porter cs0) seed (PVStream (yStr s0)) = Inr (p, fr, P)"
      and "DialStream E now seed cs dst peer = (Some e, cs', so)"
  shows "PortValue (porter cs') p = None \<and> porter cs' = porter cs
          \<and> (\<exists>st. streams (ys cs') (yStr s0) = Some st \<and> closed st)
          \<and> (\<exists>s'. so = Some s' \<and> close s' = Some \<lparr>fPort = p, fDone = True\<rparr>)
          \<and> dialed (DialStream E now seed cs dst peer) = None"
proof -
  from newInitiatingStream_Inr [OF assms(1)]
  have s0: "streams (ys cs0) (yStr s0) = Some \<lparr>rx = peer, tx = [], closed = False\<rparr>"
    and p0: "porter cs0 = porter cs"
    by simp_all
  from ReserveEphemeral_Inr [OF assms(2)]
  have free: "porter cs0 p = None" and P: "P = (porter cs0)(p \<mapsto> PVStream (yStr s0))"
    and fr: "fr = \<lparr>fPort = p, fDone = False\<rparr>"
    by simp_all
  have restored: "P(p := None) = porter cs"
    using free P p0 by (auto simp: fun_eq_iff)
  obtain r cs1 s1 where w: "writeRequest E now seed cs0 s0 dst = (r, cs1, s1)"
    by (cases "writeRequest E now seed cs0 s0 dst") auto
  from writeRequest_reserved [OF assms(2) w]
  have w1: "porter cs1 = P" "close s1 = Some fr" "yStr s1 = yStr s0"
    by simp_all
  from writeRequest_substream [OF w s0] obtain st1 where
    st1: "streams (ys cs1) (yStr s1) = Some st1"
    using w1(3) by auto
  have "\<exists>csx sx stx ex. porter csx = P \<and> close sx = Some fr \<and> yStr sx = yStr s0
          \<and> streams (ys csx) (yStr sx) = Some stx
          \<and> Stream_Close csx (Some sx) = (ex, cs', so)"
  proof (cases r)
    case (Inl e1)
    with assms(1,3) w obtain ex where "Stream_Close cs1 (Some s1) = (ex, cs', so)"
      by (auto simp: DialStream_def simp del: Stream_Close.simps split: prod.splits)
    then show ?thesis
      using w1 st1 by blast
  next
    case (Inr req)
    obtain r2 cs2 s2 where rr: "readResponse E cs1 s1 req = (r2, cs2, s2)"
      by (cases "readResponse E cs1 s1 req") auto
    from readResponse_fields [OF rr] w1
    have f2: "porter cs2 = P" "close s2 = Some fr" "yStr s2 = yStr s0"
      by simp_all
    from readResponse_substream [OF rr st1] obtain st2 where
      st2: "streams (ys cs2) (yStr s2) = Some st2"
      using f2(3) w1(3) by auto
    from assms(1,3) w Inr rr obtain ex where "Stream_Close cs2 (Some s2) = (ex, cs', so)"
      by (cases r2) (auto simp: DialStream_def simp del: Stream_Close.simps split: prod.splits)
    then show ?thesis
      using f2 st2 by blast
  qed
  then obtain csx sx stx ex where
    x: "porter csx = P" "close sx = Some fr" "yStr sx = yStr s0"
       "streams (ys csx) (yStr sx) = Some stx" "Stream_Close csx (Some sx) = (ex, cs', so)"
    by blast
  from Stream_Close_releases [OF _ x(4,5), of p] x(1,2,3) fr restored
  have "porter cs' = porter cs" "\<exists>st. streams (ys cs') (yStr s0) = Some st \<and> closed st"
    "\<exists>s'. so = Some s' \<and> close s' = Some \<lparr>fPort = p, fDone = True\<rparr>"
    by auto
  moreover have "porter cs p = None" using free p0 by simp
  moreover have "dialed (DialStream E now seed cs dst peer) = None"
    using assms(3) by (simp add: dialed_def)
  ultimately show ?thesis by (simp add: PortValue_def)
qed

lemma demo_dial_no_response: "fst (DialStream demoEnv 7 0 demoCA0 demoDst []) = Some ErrEOF"
  using demo_open [of "[]"]
  by (simp add: DialStream_def demo_defs stream_defs split: prod.splits)

theorem dial_failure_releases_port_witness:
  "newInitiatingStream demoCA0 [] = Inr (newStream 1, demoCA\<lparr>ys := oneStream []\<rparr>)
   \<and> ReserveEphemeral (porter (demoCA\<lparr>ys := oneStream []\<rparr>)) 0 (PVStream (yStr (newStream 1)))
       = Inr (49152, \<lparr>fPort = 49152, fDone = False\<rparr>, [49152 \<mapsto> PVStream 1])
   \<and> fst (DialStream demoEnv 7 0 demoCA0 demoDst []) = Some ErrEOF
   \<and> PortValue (porter (fst (snd (DialStream demoEnv 7 0 demoCA0 demoDst [])))) 49152 = None
   \<and> (\<exists>st. streams (ys (fst (snd (DialStream demoEnv 7 0 demoCA0 demoDst [])))) (yStr (newStream 1)) = Some st
         \<and> closed st)"
proof -
  have h3: "DialStream demoEnv 7 0 demoCA0 demoDst []
             = (Some ErrEOF, fst (snd (DialStream demoEnv 7 0 demoCA0 demoDst [])),
                snd (snd (DialStream demoEnv 7 0 demoCA0 demoDst [])))"
    using demo_dial_no_response by (simp add: prod_eq_iff)
  note t = dial_failure_releases_port [OF demo_open demo_reserve h3]
  from t have a: "PortValue (porter (fst (snd (DialStream demoEnv 7 0 demoCA0 demoDst [])))) 49152 = None"
    by blast
  from t have b: "\<exists>st. streams (ys (fst (snd (DialStream demoEnv 7 0 demoCA0 demoDst [])))) (yStr (newStream 1)) = Some st
         \<and> closed st"
    by blast
  show ?thesis
    using a b demo_open [of "[]"] demo_reserve [of "[]"] demo_dial_no_response by blast
qed

subsection \<open>Port reservations of a stream\<close>

lemma Stream_Close_Some:
  "Stream_Close cs (Some s) = (err, cs', so) \<Longrightarrow>
     cs' = cs\<lparr>ys := snd (ystr_Close (ys cs) (yStr s)),
              porter := (case close s of None \<Rightarrow> porter cs
                         | Some f \<Rightarrow> snd (call_freer f (porter cs)))\<rparr>
     \<and> so = Some (s\<lparr>close := map_option (\<lambda>f. fst (call_freer f (porter cs))) (close s)\<rparr>)
     \<and> err = fst (ystr_Close (ys cs) (yStr s))"
  by (auto split: option.splits prod.splits)

lemma ystr_Close_twice:
  "ystr_Close (snd (ystr_Close y sid)) sid = (None, snd (ystr_Close y sid))"
  by (cases "streams y sid") (simp_all add: ystr_Close_def)

lemma ystr_Close_closed:
  "streams y sid = Some st \<Longrightarrow>
     \<exists>st'. streams (snd (ystr_Close y sid)) sid = Some st' \<and> closed st'"
  by (simp add: ystr_Close_def)

lemma call_freer_done: "fDone (fst (call_freer f P))"
  by (simp add: call_freer_def)

lemma call_freer_spent: "fDone f \<Longrightarrow> call_freer f Q = (f, Q)"
  by (simp add: call_freer_def)

text \<open>
  Claim C5, as amended. A dialing stream holds exactly one porter reservation from the
  moment \<^verbatim>\<open>writeRequest\<close> has reserved its port: that port, and no other, maps to the
  stream; closing the stream releases it (the porter is as before the reservation) and
  leaves the release closure spent. An accepted stream reserves nothing: the porter is as
  before, the stream has no release closure of its own, and its local port is the
  request's \<open>DstAddr.Port\<close>, which holds the listener.
\<close>

theorem stream_port_reservation:
  "(ReserveEphemeral (porter cs) seed (PVStream (yStr s)) = Inr (p, fr, P) \<longrightarrow>
      PVStream (yStr s) \<notin> ran (porter cs) \<longrightarrow>
      writeRequest E now seed cs s dst = (r, cs1, s1) \<longrightarrow>
        (\<forall>q. porter cs1 q = Some (PVStream (yStr s1)) \<longleftrightarrow> q = p)
        \<and> close s1 = Some \<lparr>fPort = p, fDone = False\<rparr>
        \<and> (\<forall>req. r = Inr req \<longrightarrow> LocalAddr s1 = \<lparr>PK = Session_LocalPK cs, Port = p\<rparr>)
        \<and> (\<forall>err cs2 so. Stream_Close cs1 (Some s1) = (err, cs2, so) \<longrightarrow>
              PVStream (yStr s1) \<notin> ran (porter cs2) \<and> porter cs2 = porter cs
              \<and> so = Some (s1\<lparr>close := Some \<lparr>fPort = p, fDone = True\<rparr>\<rparr>)))
   \<and> (readRequest E cb sb = (Inr req', cb1, sb1) \<longrightarrow>
      writeResponse E cb1 sb1 req' = (None, cb2, sb2) \<longrightarrow>
        porter cb2 = porter cb \<and> close sb2 = close sb
        \<and> Port (LocalAddr sb2) = Port (DstAddr req')
        \<and> (\<exists>la. PortValue (porter cb2) (Port (LocalAddr sb2)) = Some (PVListener la)))"
proof (intro conjI impI)
  assume res: "ReserveEphemeral (porter cs) seed (PVStream (yStr s)) = Inr (p, fr, P)"
    and fresh: "PVStream (yStr s) \<notin> ran (porter cs)"
    and w: "writeRequest E now seed cs s dst = (r, cs1, s1)"
  from ReserveEphemeral_Inr [OF res]
  have free: "porter cs p = None" and P: "P = (porter cs)(p \<mapsto> PVStream (yStr s))"
    and fr: "fr = \<lparr>fPort = p, fDone = False\<rparr>"
    by simp_all
  from writeRequest_reserved [OF res w]
  have w1: "porter cs1 = P" "close s1 = Some fr" "yStr s1 = yStr s"
    by simp_all
  show "\<forall>q. porter cs1 q = Some (PVStream (yStr s1)) \<longleftrightarrow> q = p"
    using w1 P fresh by (auto simp: ran_def)
  show "close s1 = Some \<lparr>fPort = p, fDone = False\<rparr>"
    using w1 fr by simp
  show "\<forall>req. r = Inr req \<longrightarrow> LocalAddr s1 = \<lparr>PK = Session_LocalPK cs, Port = p\<rparr>"
  proof (intro allI impI)
    fix req assume "r = Inr req"
    with w have "writeRequest E now seed cs s dst = (Inr req, cs1, s1)" by simp
    from writeRequest_Inr [OF this] w1 fr show "LocalAddr s1 = \<lparr>PK = Session_LocalPK cs, Port = p\<rparr>"
      by (auto simp: LocalAddr_def)
  qed
  show "\<forall>err cs2 so. Stream_Close cs1 (Some s1) = (err, cs2, so) \<longrightarrow>
              PVStream (yStr s1) \<notin> ran (porter cs2) \<and> porter cs2 = porter cs
              \<and> so = Some (s1\<lparr>close := Some \<lparr>fPort = p, fDone = True\<rparr>\<rparr>)"
  proof (intro allI impI)
    fix err cs2 so assume c: "Stream_Close cs1 (Some s1) = (err, cs2, so)"
    have "P(p := None) = porter cs"
      using free P by (auto simp: fun_eq_iff)
    with Stream_Close_Some [OF c] w1 fr
    have "porter cs2 = porter cs" "so = Some (s1\<lparr>close := Some \<lparr>fPort = p, fDone = True\<rparr>\<rparr>)"
      by (simp_all add: call_freer_def)
    then show "PVStream (yStr s1) \<notin> ran (porter cs2) \<and> porter cs2 = porter cs
              \<and> so = Some (s1\<lparr>close := Some \<lparr>fPort = p, fDone = True\<rparr>\<rparr>)"
      using fresh w1 by simp
  qed
next
  assume r: "readRequest E cb sb = (Inr req', cb1, sb1)"
    and w: "writeResponse E cb1 sb1 req' = (None, cb2, sb2)"
  note a = readRequest_Inr [OF r]
  note b = writeResponse_None [OF w]
  show "porter cb2 = porter cb" and "close sb2 = close sb"
    and "Port (LocalAddr sb2) = Port (DstAddr req')"
    and "\<exists>la. PortValue (porter cb2) (Port (LocalAddr sb2)) = Some (PVListener la)"
    using a b by (auto simp: LocalAddr_def PortValue_def)
qed

lemma demo_reserve_A:
  "ReserveEphemeral (porter demoCA) 0 (PVStream (yStr (newStream 1)))
     = Inr (49152, \<lparr>fPort = 49152, fDone = False\<rparr>, [49152 \<mapsto> PVStream 1])"
  by (simp add: demo_defs stream_defs)

theorem stream_port_reservation_witness:
  "ReserveEphemeral (porter demoCA) 0 (PVStream (yStr (newStream 1)))
     = Inr (49152, \<lparr>fPort = 49152, fDone = False\<rparr>, [49152 \<mapsto> PVStream 1])
   \<and> PVStream (yStr (newStream 1)) \<notin> ran (porter demoCA)
   \<and> writeRequest demoEnv 7 0 demoCA (newStream 1) demoDst = (Inr demoReq, demoCA1, demoSA1)
   \<and> porter demoCA1 49152 = Some (PVStream (yStr demoSA1))
   \<and> close demoSA1 = Some \<lparr>fPort = 49152, fDone = False\<rparr>
   \<and> porter (fst (snd (Stream_Close demoCA1 (Some demoSA1)))) = porter demoCA
   \<and> readRequest demoEnv demoCB (newStream 1) = (Inr demoReq, demoCB1, demoSB1)
   \<and> writeResponse demoEnv demoCB1 demoSB1 demoReq = (None, demoCB2, demoSB2)
   \<and> porter demoCB2 = porter demoCB \<and> close demoSB2 = close (newStream 1)
   \<and> Port (LocalAddr demoSB2) = Port (DstAddr demoReq)"
proof -
  have fresh: "PVStream (yStr (newStream 1)) \<notin> ran (porter demoCA)"
    by (simp add: demoCA_def)
  note t = stream_port_reservation [of demoCA 0 "newStream 1" 49152 "\<lparr>fPort = 49152, fDone = False\<rparr>"
      "[49152 \<mapsto> PVStream 1]" demoEnv 7 demoDst "Inr demoReq" demoCA1 demoSA1
      demoCB "newStream 1" demoReq demoCB1 demoSB1 demoCB2 demoSB2]
  from t demo_reserve_A fresh demo_step1
  have a: "porter demoCA1 49152 = Some (PVStream (yStr demoSA1))"
    and b: "close demoSA1 = Some \<lparr>fPort = 49152, fDone = False\<rparr>"
    by blast+
  have c: "Stream_Close demoCA1 (Some demoSA1)
           = (fst (Stream_Close demoCA1 (Some demoSA1)), fst (snd (Stream_Close demoCA1 (Some demoSA1))),
              snd (snd (Stream_Close demoCA1 (Some demoSA1))))"
    by (simp add: prod_eq_iff)
  from t demo_reserve_A fresh demo_step1 c
  have d: "porter (fst (snd (Stream_Close demoCA1 (Some demoSA1)))) = porter demoCA"
    by blast
  from t demo_step2 demo_step3
  have e: "porter demoCB2 = porter demoCB \<and> close demoSB2 = close (newStream 1)
           \<and> Port (LocalAddr demoSB2) = Port (DstAddr demoReq)"
    by blast
  show ?thesis
    using demo_reserve_A fresh demo_step1 demo_step2 demo_step3 a b d e by blast
qed

text \<open>
  Claim C5 as stated fails on the accepting side: after \<open>B\<close> has accepted the stream of
  the dial to \<open>B:5000\<close>, the stream has no release closure, no port of the porter holds
  it (the porter is as before the accept), and its local port is \<open>5000\<close>, the listener's
  port, not a new ephemeral one.
\<close>

theorem stream_port_reservation_counterexample:
  "fst (readRequest demoEnv demoCB (newStream 1)) = Inr demoReq
   \<and> fst (writeResponse demoEnv demoCB1 demoSB1 demoReq) = None
   \<and> close demoSB2 = None
   \<and> PVStream (yStr demoSB2) \<notin> ran (porter demoCB2)
   \<and> porter demoCB2 = porter demoCB
   \<and> Port (LocalAddr demoSB2) = 5000
   \<and> PortValue (porter demoCB2) 5000 = Some (PVListener 0)"
  by (simp add: demoSB2_def demoCB2_def demoCB1_def demoSB1_def demo_defs stream_defs
        LocalAddr_def)

subsection \<open>Closing a stream\<close>

lemma Stream_Close_again:
  assumes "Stream_Close cs (Some s) = (e1, cs1, so1)"
  shows "\<exists>s1. so1 = Some s1 \<and> yStr s1 = yStr s
           \<and> (\<forall>f. close s1 = Some f \<longrightarrow> fDone f) \<and> (close s = None \<longrightarrow> close s1 = None)
           \<and> ys cs1 = snd (ystr_Close (ys cs) (yStr s))"
  using Stream_Close_Some [OF assms]
  by (cases "close s") (auto simp: call_freer_done)

lemma Stream_Close_spent:
  assumes "\<forall>f. close s = Some f \<longrightarrow> fDone f"
      and "Stream_Close cs (Some s) = (e, cs', so)"
  shows "porter cs' = porter cs \<and> so = Some s \<and> ys cs' = snd (ystr_Close (ys cs) (yStr s))
          \<and> e = fst (ystr_Close (ys cs) (yStr s))"
  using Stream_Close_Some [OF assms(2)] assms(1)
  by (cases "close s") (auto simp: call_freer_spent)

text \<open>
  Claim C9, as amended. Closing a nil stream does nothing and returns no error. For a
  stream, a second \<^verbatim>\<open>Close\<close> changes nothing and returns no error, and the first one
  closes the sub-stream. When the stream has a release closure for its local port (the
  dialing side), the porter entry of that port is absent after the first close and after
  the second, and the release never runs again: whatever the porter holds by then, a
  further close leaves it as it is. A stream without a release closure (the accepting side)
  leaves the porter untouched.
\<close>

theorem stream_close_idempotent:
  "Stream_Close cs None = (None, cs, None)
   \<and> (Stream_Close cs (Some s) = (e1, cs1, so1) \<longrightarrow> Stream_Close cs1 so1 = (e2, cs2, so2) \<longrightarrow>
        cs2 = cs1 \<and> so2 = so1 \<and> e2 = None
        \<and> (\<forall>st. streams (ys cs) (yStr s) = Some st \<longrightarrow>
              (\<exists>st'. streams (ys cs1) (yStr s) = Some st' \<and> closed st'))
        \<and> (\<forall>f. close s = Some f \<longrightarrow> \<not> fDone f \<longrightarrow> fPort f = Port (LocalAddr s) \<longrightarrow>
              PortValue (porter cs1) (Port (LocalAddr s)) = None
              \<and> PortValue (porter cs2) (Port (LocalAddr s)) = None
              \<and> porter cs1 = (porter cs)(Port (LocalAddr s) := None))
        \<and> (\<forall>Q e3 cs3 so3. Stream_Close (cs1\<lparr>porter := Q\<rparr>) so1 = (e3, cs3, so3) \<longrightarrow> porter cs3 = Q)
        \<and> (close s = None \<longrightarrow> porter cs1 = porter cs))"
proof (intro conjI impI)
  show "Stream_Close cs None = (None, cs, None)" by simp
next
  assume c1: "Stream_Close cs (Some s) = (e1, cs1, so1)"
    and c2: "Stream_Close cs1 so1 = (e2, cs2, so2)"
  from Stream_Close_again [OF c1] obtain s1 where
    s1: "so1 = Some s1" "yStr s1 = yStr s" "\<forall>f. close s1 = Some f \<longrightarrow> fDone f"
        "ys cs1 = snd (ystr_Close (ys cs) (yStr s))"
    by blast
  from Stream_Close_spent [OF s1(3) c2 [unfolded s1(1)]]
  have second: "porter cs2 = porter cs1" "so2 = Some s1"
    "ys cs2 = snd (ystr_Close (ys cs1) (yStr s1))" "e2 = fst (ystr_Close (ys cs1) (yStr s1))"
    by simp_all
  have tw: "ystr_Close (ys cs1) (yStr s1) = (None, ys cs1)"
    using ystr_Close_twice [of "ys cs" "yStr s"] s1(2,4) by simp
  from Stream_Close_Some [OF c2 [unfolded s1(1)]] second tw
  show "cs2 = cs1" by simp
  show "so2 = so1" using second s1 by simp
  show "e2 = None" using second tw by simp
  show "\<forall>st. streams (ys cs) (yStr s) = Some st \<longrightarrow>
              (\<exists>st'. streams (ys cs1) (yStr s) = Some st' \<and> closed st')"
    using s1(4) ystr_Close_closed by simp
  have rel: "porter cs1 = (porter cs)(Port (LocalAddr s) := None)"
    if "close s = Some f" "\<not> fDone f" "fPort f = Port (LocalAddr s)" for f
    using Stream_Close_Some [OF c1] that by (simp add: call_freer_def)
  show "\<forall>f. close s = Some f \<longrightarrow> \<not> fDone f \<longrightarrow> fPort f = Port (LocalAddr s) \<longrightarrow>
              PortValue (porter cs1) (Port (LocalAddr s)) = None
              \<and> PortValue (porter cs2) (Port (LocalAddr s)) = None
              \<and> porter cs1 = (porter cs)(Port (LocalAddr s) := None)"
    using rel second(1) by (simp add: PortValue_def)
  show "\<forall>Q e3 cs3 so3. Stream_Close (cs1\<lparr>porter := Q\<rparr>) so1 = (e3, cs3, so3) \<longrightarrow> porter cs3 = Q"
  proof (intro allI impI)
    fix Q e3 cs3 so3 assume "Stream_Close (cs1\<lparr>porter := Q\<rparr>) so1 = (e3, cs3, so3)"
    from Stream_Close_spent [OF s1(3) this [unfolded s1(1)]] show "porter cs3 = Q" by simp
  qed
next
  assume c1: "Stream_Close cs (Some s) = (e1, cs1, so1)" and "close s = None"
  with Stream_Close_Some [OF c1] show "porter cs1 = porter cs" by simp
qed

lemma demo_close_A_local: "close demoSA2 = Some \<lparr>fPort = 49152, fDone = False\<rparr>
                          \<and> Port (LocalAddr demoSA2) = 49152"
  by (simp add: demoSA2_def demoCA1_def demoSA1_def demo_defs stream_defs LocalAddr_def)

theorem stream_close_idempotent_witness:
  "Stream_Close demoCA2 None = (None, demoCA2, None)
   \<and> close demoSA2 = Some \<lparr>fPort = 49152, fDone = False\<rparr>
   \<and> fPort \<lparr>fPort = 49152, fDone = False\<rparr> = Port (LocalAddr demoSA2)
   \<and> PortValue (porter demoCA2) (Port (LocalAddr demoSA2)) = Some (PVStream 1)
   \<and> PortValue (porter (fst (snd (Stream_Close demoCA2 (Some demoSA2))))) (Port (LocalAddr demoSA2)) = None
   \<and> Stream_Close (fst (snd (Stream_Close demoCA2 (Some demoSA2))))
        (snd (snd (Stream_Close demoCA2 (Some demoSA2))))
       = (None, fst (snd (Stream_Close demoCA2 (Some demoSA2))),
          snd (snd (Stream_Close demoCA2 (Some demoSA2))))"
proof -
  let ?c1 = "Stream_Close demoCA2 (Some demoSA2)"
  let ?c2 = "Stream_Close (fst (snd ?c1)) (snd (snd ?c1))"
  have h1: "?c1 = (fst ?c1, fst (snd ?c1), snd (snd ?c1))" by (simp add: prod_eq_iff)
  have h2: "?c2 = (fst ?c2, fst (snd ?c2), snd (snd ?c2))" by (simp add: prod_eq_iff)
  note t = stream_close_idempotent [of demoCA2 demoSA2 "fst ?c1" "fst (snd ?c1)" "snd (snd ?c1)"
      "fst ?c2" "fst (snd ?c2)" "snd (snd ?c2)"]
  from t have n: "Stream_Close demoCA2 None = (None, demoCA2, None)" by blast
  from t h1 h2 have i: "fst (snd ?c2) = fst (snd ?c1) \<and> snd (snd ?c2) = snd (snd ?c1) \<and> fst ?c2 = None"
    by blast
  have f: "close demoSA2 = Some \<lparr>fPort = 49152, fDone = False\<rparr>"
    and l: "fPort \<lparr>fPort = 49152, fDone = False\<rparr> = Port (LocalAddr demoSA2)"
    using demo_close_A_local by simp_all
  have nd: "\<not> fDone \<lparr>fPort = 49152, fDone = False\<rparr>" by simp
  from t h1 h2 f l nd
  have a: "PortValue (porter (fst (snd ?c1))) (Port (LocalAddr demoSA2)) = None"
    by blast
  have b: "PortValue (porter demoCA2) (Port (LocalAddr demoSA2)) = Some (PVStream 1)"
    by (simp add: demoCA2_def demoSA2_def demoCA1_def demoSA1_def demo_defs stream_defs
          LocalAddr_def)
  have "?c2 = (None, fst (snd ?c1), snd (snd ?c1))"
    using i by (simp add: prod_eq_iff)
  then show ?thesis
    using n f l a b by blast
qed

text \<open>
  Claim C9 as stated fails for an accepted stream: the stream \<open>B\<close> has accepted has the
  listener's port \<open>5000\<close> as its local port and no release closure, and after its close
  the porter entry of that port is still there.
\<close>

theorem stream_close_counterexample:
  "close demoSB2 = None
   \<and> Port (LocalAddr demoSB2) = 5000
   \<and> fst (Stream_Close demoCB2 (Some demoSB2)) = None
   \<and> PortValue (porter (fst (snd (Stream_Close demoCB2 (Some demoSB2))))) (Port (LocalAddr demoSB2))
       = Some (PVListener 0)"
  by (simp add: demoSB2_def demoCB2_def demoCB1_def demoSB1_def demo_defs stream_defs
        LocalAddr_def)

subsection \<open>Closing a session\<close>

text \<open>
  Claim C7, as amended. \<^verbatim>\<open>Session.Close\<close> sends the go-away, shuts the multiplexer
  down and thereby closes every sub-stream of the session, and returns the multiplexer's
  result; it leaves the porter as it is.
\<close>

theorem session_close_effect:
  assumes "Session_Close s = (err, s')"
  shows "goAway (ys s') \<and> shutdown (ys s')
          \<and> (\<forall>sid st. streams (ys s') sid = Some st \<longrightarrow> closed st)
          \<and> dom (streams (ys s')) = dom (streams (ys s))
          \<and> porter s' = porter s \<and> err = None"
  using assms
  by (auto simp: Session_Close_def GoAway_def yses_Close_def split: prod.splits)

theorem session_close_effect_witness:
  "Session_Close demoCA2 = (None, snd (Session_Close demoCA2))
   \<and> shutdown (ys (snd (Session_Close demoCA2)))
   \<and> map_option closed (streams (ys demoCA2) 1) = Some False
   \<and> map_option closed (streams (ys (snd (Session_Close demoCA2))) 1) = Some True
   \<and> porter (snd (Session_Close demoCA2)) = porter demoCA2"
proof -
  have h: "Session_Close demoCA2 = (fst (Session_Close demoCA2), snd (Session_Close demoCA2))"
    by simp
  note t = session_close_effect [OF h]
  from t have "fst (Session_Close demoCA2) = None" by blast
  then have a: "Session_Close demoCA2 = (None, snd (Session_Close demoCA2))"
    by (simp add: prod_eq_iff)
  have b: "map_option closed (streams (ys demoCA2) 1) = Some False"
    by (simp add: demoCA2_def demoSA1_def demoCA1_def demo_defs stream_defs)
  then have "1 \<in> dom (streams (ys demoCA2))" by auto
  with t obtain st where "streams (ys (snd (Session_Close demoCA2))) 1 = Some st" "closed st"
    by blast
  then have c: "map_option closed (streams (ys (snd (Session_Close demoCA2))) 1) = Some True"
    by simp
  from t have "shutdown (ys (snd (Session_Close demoCA2)))"
    and "porter (snd (Session_Close demoCA2)) = porter demoCA2"
    by blast+
  then show ?thesis using a b c by blast
qed

text \<open>
  Claim C7 as stated fails: client \<open>A\<close> holds the port \<open>49152\<close> for its stream, and
  after its session is closed the porter still holds that entry.
\<close>

theorem session_close_counterexample:
  "PortValue (porter demoCA2) 49152 = Some (PVStream 1)
   \<and> fst (Session_Close demoCA2) = None
   \<and> PortValue (porter (snd (Session_Close demoCA2))) 49152 = Some (PVStream 1)"
  by (simp add: Session_Close_def GoAway_def yses_Close_def demoCA2_def demoSA1_def demoCA1_def
        demo_defs stream_defs split: prod.splits)

subsection \<open>A request for a port without a listener\<close>

lemma DialStream_fail_porter:
  assumes "DialStream E now seed cs dst peer = (Some e, cs', so)"
  shows "porter cs' = porter cs"
proof (cases "newInitiatingStream cs peer")
  case (Inl e0)
  with assms show ?thesis by (simp add: DialStream_def)
next
  case (Inr a)
  then obtain s0 cs0 where o: "newInitiatingStream cs peer = Inr (s0, cs0)"
    by (cases a) auto
  from newInitiatingStream_Inr [OF o] have p0: "porter cs0 = porter cs" by simp
  obtain r cs1 s1 where w: "writeRequest E now seed cs0 s0 dst = (r, cs1, s1)"
    by (cases "writeRequest E now seed cs0 s0 dst") auto
  have inv: "(close s1 = None \<and> porter cs1 = porter cs0)
             \<or> (\<exists>p. close s1 = Some \<lparr>fPort = p, fDone = False\<rparr> \<and> porter cs0 p = None
                     \<and> porter cs1 = (porter cs0)(p \<mapsto> PVStream (yStr s0)))"
  proof (cases "ReserveEphemeral (porter cs0) seed (PVStream (yStr s0))")
    case (Inl e1)
    with w show ?thesis by (auto simp: writeRequest_def)
  next
    case (Inr b)
    then obtain p fr P where
      res: "ReserveEphemeral (porter cs0) seed (PVStream (yStr s0)) = Inr (p, fr, P)"
      by (cases b) auto
    from ReserveEphemeral_Inr [OF res] writeRequest_reserved [OF res w]
    show ?thesis by auto
  qed
  have closing: "porter cx = porter cs0"
    if "Stream_Close c (Some sx) = (ex, cx, sox)" "close sx = close s1" "porter c = porter cs1"
    for c sx ex cx sox
    using Stream_Close_Some [OF that(1)] that(2,3) inv
    by (auto simp: call_freer_def fun_eq_iff)
  show ?thesis
  proof (cases r)
    case (Inl e1)
    with assms o w obtain ex where "Stream_Close cs1 (Some s1) = (ex, cs', so)"
      by (auto simp: DialStream_def simp del: Stream_Close.simps split: prod.splits)
    from closing [OF this] p0 show ?thesis by simp
  next
    case (Inr req)
    obtain r2 cs2 s2 where rr: "readResponse E cs1 s1 req = (r2, cs2, s2)"
      by (cases "readResponse E cs1 s1 req") auto
    from assms o w Inr rr obtain ex where c: "Stream_Close cs2 (Some s2) = (ex, cs', so)"
      by (cases r2) (auto simp: DialStream_def simp del: Stream_Close.simps split: prod.splits)
    from readResponse_fields [OF rr] have "close s2 = close s1" "porter cs2 = porter cs1"
      by simp_all
    from closing [OF c this] p0 show ?thesis by simp
  qed
qed

lemma DialStream_no_response: "\<exists>e. fst (DialStream E now seed cs dst []) = Some e"
proof (cases "newInitiatingStream cs []")
  case (Inl e0)
  then show ?thesis by (simp add: DialStream_def)
next
  case (Inr a)
  then obtain s0 cs0 where o: "newInitiatingStream cs [] = Inr (s0, cs0)"
    by (cases a) auto
  from newInitiatingStream_Inr [OF o]
  have s0: "streams (ys cs0) (yStr s0) = Some \<lparr>rx = [], tx = [], closed = False\<rparr>"
    by simp
  obtain r cs1 s1 where w: "writeRequest E now seed cs0 s0 dst = (r, cs1, s1)"
    by (cases "writeRequest E now seed cs0 s0 dst") auto
  show ?thesis
  proof (cases r)
    case (Inl e1)
    with o w show ?thesis by (simp add: DialStream_def split: prod.splits)
  next
    case (Inr req)
    with w have w': "writeRequest E now seed cs0 s0 dst = (Inr req, cs1, s1)" by simp
    from writeRequest_Inr [OF w'] have y: "yStr s1 = yStr s0" by auto
    from writeRequest_substream [OF w s0] y obtain st where
      "streams (ys cs1) (yStr s1) = Some st" "rx st = []"
      by auto
    then have "\<exists>e cs2 s2. readResponse E cs1 s1 req = (Some e, cs2, s2)"
      by (auto simp: readResponse_def readEncryptedGob_resp_def ystr_Read_def)
    with o w' show ?thesis
      by (auto simp: DialStream_def simp del: Stream_Close.simps split: prod.splits)
  qed
qed

text \<open>
  Claim C8, as amended. On the accepting client, when the request's \<open>DstAddr.Port\<close> does
  not hold a listener in the porter, \<^verbatim>\<open>writeResponse\<close> fails with
  \<open>ErrReqNoListener\<close> and changes nothing: no response, accepting or not, is written on
  the sub-stream. The dialer, to whom no response arrives, fails its dial, and its porter
  is then as before the dial: the port it had reserved is released.
\<close>

theorem no_listener_no_response:
  assumes "readRequest E cs0 s0 = (Inr req, cs, s)"
      and "\<forall>la. PortValue (porter cs0) (Port (DstAddr req)) \<noteq> Some (PVListener la)"
  shows "writeResponse E cs s req = (Some ErrReqNoListener, cs, s)
          \<and> (\<exists>e. fst (DialStream E' now seed csA dst []) = Some e)
          \<and> porter (fst (snd (DialStream E' now seed csA dst []))) = porter csA"
proof -
  from readRequest_Inr [OF assms(1)]
  have "Port (lAddr s) = Port (DstAddr req)" "porter cs = porter cs0"
    by simp_all
  with assms(2) have "writeResponse E cs s req = (Some ErrReqNoListener, cs, s)"
    by (auto simp: writeResponse_def split: option.splits PortValue.splits)
  moreover from DialStream_no_response obtain e where
    e: "fst (DialStream E' now seed csA dst []) = Some e"
    by blast
  moreover have "porter (fst (snd (DialStream E' now seed csA dst []))) = porter csA"
    by (rule DialStream_fail_porter [of E' now seed csA dst "[]" e _
          "snd (snd (DialStream E' now seed csA dst []))"])
       (use e in \<open>simp add: prod_eq_iff\<close>)
  ultimately show ?thesis by blast
qed

lemma demo_readRequest9: "fst (readRequest demoEnv demoCB9 (newStream 1)) = Inr demoReq9"
  by (simp add: demoCB9_def demoReq9_def demo_defs stream_defs)

lemma demo_step9: "readRequest demoEnv demoCB9 (newStream 1) = (Inr demoReq9, demoCB91, demoSB91)"
  using demo_readRequest9 by (simp add: demoCB91_def demoSB91_def prod_eq_iff)

lemma demo_no_listener9:
  "\<forall>la. PortValue (porter demoCB9) (Port (DstAddr demoReq9)) \<noteq> Some (PVListener la)"
  by (simp add: demoCB9_def demoReq9_def demoCB_def PortValue_def)

theorem no_listener_no_response_witness:
  "readRequest demoEnv demoCB9 (newStream 1) = (Inr demoReq9, demoCB91, demoSB91)
   \<and> (\<forall>la. PortValue (porter demoCB9) (Port (DstAddr demoReq9)) \<noteq> Some (PVListener la))
   \<and> writeResponse demoEnv demoCB91 demoSB91 demoReq9 = (Some ErrReqNoListener, demoCB91, demoSB91)
   \<and> porter (fst (snd (DialStream demoEnv 7 0 demoCA0 \<lparr>PK = ''B'', Port = 9999\<rparr> []))) = porter demoCA0"
proof -
  note t = no_listener_no_response [OF demo_step9 demo_no_listener9,
      of demoEnv 7 0 demoCA0 "\<lparr>PK = ''B'', Port = 9999\<rparr>"]
  show ?thesis using t demo_step9 demo_no_listener9 by blast
qed

text \<open>
  Claim C8 as stated fails: when the request for \<open>B:9999\<close> arrives and \<open>B\<close> has no
  listener there, \<^verbatim>\<open>writeResponse\<close> fails with \<open>ErrReqNoListener\<close> and nothing at
  all has been written on the sub-stream, so no response with \<open>Accepted\<close> false goes to
  the dialer.
\<close>

theorem no_listener_counterexample:
  "fst (readRequest demoEnv demoCB9 (newStream 1)) = Inr demoReq9
   \<and> PortValue (porter demoCB91) (Port (DstAddr demoReq9)) = None
   \<and> fst (writeResponse demoEnv demoCB91 demoSB91 demoReq9) = Some ErrReqNoListener
   \<and> map_option tx (streams (ys (fst (snd (writeResponse demoEnv demoCB91 demoSB91 demoReq9)))) 1)
       = Some []"
  by (simp add: demoCB91_def demoSB91_def demoCB9_def demoReq9_def demo_defs stream_defs)

subsection \<open>What the relay sees of a stream\<close>

lemma forwardRequest_verbatim:
  assumes "forwardRequest E s req peer = (Inr (sid, resp), s')"
  shows "\<exists>st. streams (ys s') sid = Some st \<and> tx st = [FReq req] \<and> sid = nextID (ys s)"
  using assms
  by (auto simp: forwardRequest_def OpenStream_def writeEncryptedGob_def ystr_Write_def
        readEncryptedGob_resp_def ystr_Read_def
        split: if_splits sum.splits option.splits prod.splits list.splits frame.splits)

lemma Stream_Write_plain:
  assumes "Stream_Write cs s b = ((n, None), cs')"
  shows "\<exists>st. streams (ys cs) (yStr s) = Some st
           \<and> streams (ys cs') (yStr s) = Some (st\<lparr>tx := tx st @ [FRaw b]\<rparr>) \<and> n = length b"
  using assms
  by (auto simp: Stream_Write_def ystr_Write_def split: sum.splits option.splits if_splits)

text \<open>
  Claim C1 does not hold of the code. After the handshake, client \<open>A\<close> writes \<open>ping\<close>
  to its stream: \<^verbatim>\<open>Stream.Write\<close> puts these four bytes on the sub-stream as they
  are, behind the request. The relay, with the request and these bytes arriving on the
  session of \<open>A\<close> and the response of \<open>B\<close> arriving on the forwarded sub-stream, writes
  the request and then the same bytes \<open>ping\<close> on the sub-stream to \<open>B\<close>, and
  \<^verbatim>\<open>Stream.Read\<close> of \<open>B\<close> returns them as they came: the plaintext has passed through
  the relay.
\<close>

theorem stream_bytes_plain_through_relay:
  "fst (Stream_Write demoCA2 demoSA2 ''ping'') = (4, None)
   \<and> map_option tx (streams (ys (snd (Stream_Write demoCA2 demoSA2 ''ping''))) (yStr demoSA2))
       = Some [FReq demoReq, FRaw ''ping'']
   \<and> fst (handleServerStream demoEnv demoGetter (demoStoreIn [FReq demoReq, FRaw ''ping'']) 0 1
            [FResp demoResp]) = None
   \<and> map_option tx (getYStr (snd (handleServerStream demoEnv demoGetter
                                     (demoStoreIn [FReq demoReq, FRaw ''ping'']) 0 1 [FResp demoResp])) 1 1)
       = Some [FReq demoReq, FRaw ''ping'']
   \<and> fst (Stream_Read (demoCB2\<lparr>ys := oneStream [FRaw ''ping'']\<rparr>) demoSB2) = (''ping'', None)"
proof (intro conjI)
  show "fst (Stream_Write demoCA2 demoSA2 ''ping'') = (4, None)"
    by (simp add: Stream_Write_def demoCA2_def demoSA2_def demoCA1_def demoSA1_def demo_defs
          stream_defs)
  show "map_option tx (streams (ys (snd (Stream_Write demoCA2 demoSA2 ''ping''))) (yStr demoSA2))
       = Some [FReq demoReq, FRaw ''ping'']"
    by (simp add: Stream_Write_def demoCA2_def demoSA2_def demoCA1_def demoSA1_def demo_defs
          stream_defs)
  note relay_defs = handleServerStream_def srv_readRequest_def forwardRequest_def OpenStream_def
    CopyReadWriter_def getYStr_def putYStr_def closeYStr_def demoStoreIn_def demoSrvSes_def
    demoGetter_def demoYS0_def
  show "fst (handleServerStream demoEnv demoGetter (demoStoreIn [FReq demoReq, FRaw ''ping'']) 0 1
            [FResp demoResp]) = None"
    by (simp add: relay_defs demo_defs stream_defs)
  show "map_option tx (getYStr (snd (handleServerStream demoEnv demoGetter
                                     (demoStoreIn [FReq demoReq, FRaw ''ping'']) 0 1 [FResp demoResp])) 1 1)
       = Some [FReq demoReq, FRaw ''ping'']"
    by (simp add: relay_defs demo_defs stream_defs)
  show "fst (Stream_Read (demoCB2\<lparr>ys := oneStream [FRaw ''ping'']\<rparr>) demoSB2) = (''ping'', None)"
    by (simp add: Stream_Read_def demoSB2_def demoCB2_def demoCB1_def demoSB1_def demo_defs
          stream_defs)
qed

end
